theory Spec2Isabelle
  imports Complex_Main "HOL-Library.Log_Nat"
begin

section \<open>Data model\<close>

text \<open>
  The services of the GameZone point-of-sale backend work on a relational store through
  knex. The store is modelled as a record of tables. A table with a string primary key is
  a map from the key to its row; a table that is only appended to and searched is a list of
  rows in insertion order.

  Conventions of the model:
  \<^item> instants (\<open>new Date()\<close>, \<open>getTime()\<close>) are integers, milliseconds since the epoch, and
    the clock reading of a call is its parameter \<open>now\<close>;
  \<^item> a JavaScript number is the rational it denotes. The cost of a session is computed as
    the code computes it, in IEEE 754 double arithmetic: \<open>to_double\<close> rounds the result of
    each operation, and each rate read from the store, to the nearest double. Instants and
    durations are integers below \<open>2^53\<close>, on which double arithmetic is exact. In the checkout
    and on the tab, sums and products of amounts are exact;
  \<^item> \<open>ulid()\<close> is a parameter of the call that draws it;
  \<^item> the columns \<open>created_at\<close> and \<open>updated_at\<close> are left out, and so are the range and
    the scale of the \<open>decimal(8,2)\<close> columns and the range of the \<open>integer\<close> columns;
  \<^item> a nullable column is an \<open>option\<close>; a stored instant is truthy and a stored decimal is
    a number (never \<open>NaN\<close>);
  \<^item> row locks (\<open>forUpdate\<close>) are left out: each call runs alone on the store.
\<close>

datatype console_status = Available | InUse | Maintenance | Reserved

datatype session_status = Active | Paused | Ended

datatype gaming_mode = Mode1v1 | Mode2v2

text \<open>
  The database client of knexfile.ts. sqlite3 (development, test) returns a decimal column as
  a number, postgresql (staging, production) as a string, and the two differ in what
  \<open>value || fallback\<close> does with a stored zero.
\<close>

datatype client = Sqlite3 | Postgresql

record console_row =
  con_name :: string
  con_type :: string
  con_status :: console_status
  con_hourly_rate :: rat
  con_hourly_rate_2v2 :: "rat option"

record session_row =
  ses_console_id :: "string option"
  ses_start_time :: int
  ses_end_time :: "int option"
  ses_status :: session_status
  ses_gaming_mode :: "gaming_mode option"
  ses_total_paused_duration :: "int option"
  ses_final_cost :: "rat option"
  ses_paused_at :: "int option"

record product_row =
  prod_name :: string
  prod_price :: rat
  prod_stock :: int

record session_item_row =
  si_id :: nat
  si_session_id :: string
  si_product_id :: string
  si_quantity :: int
  si_unit_price :: rat
  si_subtotal :: rat

record receipt_row =
  rec_id :: string
  rec_subtotal :: rat
  rec_tax :: rat
  rec_total :: rat
  rec_payment_method :: string
  rec_session_id :: "string option"
  rec_manual_console_price :: "rat option"
  rec_calculated_console_price :: "rat option"
  rec_gaming_mode :: "gaming_mode option"
  rec_base_hourly_rate :: "rat option"
  rec_hourly_rate_2v2 :: "rat option"

record receipt_item_row =
  ri_receipt_id :: string
  ri_product_id :: string
  ri_product_name :: string
  ri_quantity :: int
  ri_unit_price :: rat
  ri_subtotal :: rat

record db =
  consoles :: "string \<rightharpoonup> console_row"
  sessions :: "string \<rightharpoonup> session_row"
  products :: "string \<rightharpoonup> product_row"
  session_items :: "session_item_row list"
  receipts :: "receipt_row list"
  receipt_items :: "receipt_item_row list"

text \<open>Every \<open>throw new Error(...)\<close> of the two services, and the failure of an insert.\<close>

datatype error =
    ConsoleNotAvailable              \<comment> \<open>'Console is not available.'\<close>
  | No2v2Support                     \<comment> \<open>'This console does not support 2v2 mode or has no 2v2 rate configured.'\<close>
  | NoValidHourlyRate                \<comment> \<open>'Console has no valid hourly rate configured.'\<close>
  | ActiveSessionNotFound            \<comment> \<open>'Active session not found or already paused.'\<close>
  | PausedSessionNotFound            \<comment> \<open>'Paused session not found.'\<close>
  | SessionNotFoundOrEnded           \<comment> \<open>'Session not found or already ended.'\<close>
  | AssociatedConsoleNotFound        \<comment> \<open>'Associated console not found.'\<close>
  | SessionNotActiveOrNotFound       \<comment> \<open>'Session is not active or not found.'\<close>
  | ProductNotFound                  \<comment> \<open>'Product not found.'\<close>
  | NotEnoughStock string            \<comment> \<open>'Not enough stock for <name>.'\<close>
  | SessionNotFound                  \<comment> \<open>'Session not found.'\<close>
  | SessionNotEnded                  \<comment> \<open>'Session has not been ended yet.'\<close>
  | AlreadyPaid                      \<comment> \<open>'This session has already been paid for.'\<close>
  | CostNotCalculated                \<comment> \<open>'Session cost has not been calculated. Cannot process checkout.'\<close>
  | ConsoleNotFoundForSession        \<comment> \<open>'Console not found for this session.'\<close>
  | NegativeConsolePrice             \<comment> \<open>'Console price cannot be negative.'\<close>
  | CartProductNotFound string       \<comment> \<open>'Product with ID <id> not found.'\<close>
  | CartNotEnoughStock string int    \<comment> \<open>'Not enough stock for <name>. Available: <stock>'\<close>
  | MustBeEndedBeforeCost            \<comment> \<open>'Session must be ended before calculating cost'\<close>
  | DuplicateKey                     \<comment> \<open>an insert whose primary key is already in the table\<close>

section \<open>Helpers\<close>

text \<open>
  \<open>db.transaction(async trx => body)\<close>: the body runs on the store and leaves it as it is at
  its return or at its throw; knex commits when the body returns and rolls back to the store
  of the start when it throws.
\<close>

definition transaction :: "(db \<Rightarrow> (error + 'a) \<times> db) \<Rightarrow> db \<Rightarrow> (error + 'a) \<times> db" where
  "transaction body d =
     (case body d of
        (Inl e, _) \<Rightarrow> (Inl e, d)
      | (Inr r, d') \<Rightarrow> (Inr r, d'))"

text \<open>
  \<open>x.toFixed(2)\<close> read back as a number: the multiple of 1/100 nearest to \<open>x\<close>, a tie going
  away from zero (ECMAScript takes the sign off first and picks the larger \<open>n\<close> on a tie).
\<close>

definition toFixed2 :: "rat \<Rightarrow> rat" where
  "toFixed2 x =
     (if x < 0 then - (of_int \<lfloor>(- x) * 100 + 1 / 2\<rfloor> / 100)
      else of_int \<lfloor>x * 100 + 1 / 2\<rfloor> / 100)"

text \<open>
  The nearest IEEE 754 double (binary64) of a rational, ties to even, which is what every
  arithmetic operation on JavaScript numbers and every \<open>parseFloat\<close> returns. \<open>float_exponent\<close> is
  the floor of the binary logarithm of \<open>\<bar>x\<bar>\<close>; a double has 53 significant bits and no unit in
  the last place below \<open>2^-1074\<close> (subnormal numbers). Overflow to \<open>Infinity\<close>, beyond \<open>2^1024\<close>,
  is not modelled: the columns of the store keep every value far below.
\<close>

definition pow2 :: "int \<Rightarrow> rat" where
  "pow2 e = (if 0 \<le> e then 2 ^ nat e else 1 / 2 ^ nat (- e))"

definition float_exponent :: "rat \<Rightarrow> int" where
  "float_exponent x =
     (if 1 \<le> \<bar>x\<bar> then int (floorlog 2 (nat \<lfloor>\<bar>x\<bar>\<rfloor>)) - 1
      else - int (floorlog 2 (nat \<lceil>1 / \<bar>x\<bar>\<rceil> - 1)))"

definition round_half_even :: "rat \<Rightarrow> int" where
  "round_half_even x =
     (let n = \<lfloor>x\<rfloor>; f = x - of_int n
      in if f < 1 / 2 then n else if 1 / 2 < f then n + 1 else if even n then n else n + 1)"

definition to_double :: "rat \<Rightarrow> rat" where
  "to_double x =
     (if x = 0 then 0
      else let ulp = pow2 (max (float_exponent x - 52) (- 1074))
           in of_int (round_half_even (x / ulp)) * ulp)"

text \<open>\<open>Math.round\<close>: the nearest integer, a tie going up.\<close>

definition Math_round :: "rat \<Rightarrow> int" where
  "Math_round x = \<lfloor>x + 1 / 2\<rfloor>"

text \<open>
  \<open>parseFloat(v || fallback)\<close> and \<open>Number(v || fallback)\<close> on a decimal column: null is falsy
  under both clients, a stored zero is falsy only as the number sqlite3 returns
  (the string '0.00' of postgresql is truthy).
\<close>

definition decimal_or :: "client \<Rightarrow> rat option \<Rightarrow> rat \<Rightarrow> rat" where
  "decimal_or cl v fallback =
     (case v of
        None \<Rightarrow> fallback
      | Some r \<Rightarrow> if cl = Sqlite3 \<and> r = 0 then fallback else r)"

text \<open>\<open>session.total_paused_duration || 0\<close> on the integer column.\<close>

definition paused_or_0 :: "int option \<Rightarrow> int" where
  "paused_or_0 v = (case v of None \<Rightarrow> 0 | Some n \<Rightarrow> n)"

text \<open>\<open>session.gaming_mode || '1v1'\<close>.\<close>

definition mode_or_1v1 :: "gaming_mode option \<Rightarrow> gaming_mode" where
  "mode_or_1v1 v = (case v of None \<Rightarrow> Mode1v1 | Some m \<Rightarrow> m)"

text \<open>
  \<open>trx('consoles').where({ id: session.console_id }).first()\<close>: a session whose console was
  deleted has a null \<open>console_id\<close> (ON DELETE SET NULL) and finds no row.
\<close>

definition console_of :: "db \<Rightarrow> session_row \<Rightarrow> console_row option" where
  "console_of d s = (case ses_console_id s of None \<Rightarrow> None | Some cid \<Rightarrow> consoles d cid)"

text \<open>
  \<open>findSessionById\<close>: the session row joined with its console row (an inner join: no console,
  no result). The tab lines it attaches and the renaming of \<open>toCamelCase\<close> are left out.
\<close>

definition findSessionById :: "db \<Rightarrow> string \<Rightarrow> (session_row \<times> console_row) option" where
  "findSessionById d sid =
     (case sessions d sid of
        None \<Rightarrow> None
      | Some s \<Rightarrow> (case console_of d s of None \<Rightarrow> None | Some c \<Rightarrow> Some (s, c)))"

section \<open>Session service\<close>

subsection \<open>endSession\<close>

text \<open>
  The hours, the rates and the cost are doubles: the division, each \<open>parseFloat\<close> and the
  product round to the nearest double. \<open>toFixed(2)\<close> prints the cost with two decimals, and the
  decimal it prints is what the column \<open>final_cost\<close> stores. Under sqlite3 the 2v2 rate comes
  from the store as a double already, and it is that double that \<open>||\<close> tests.
\<close>

definition endSession_body ::
  "client \<Rightarrow> string \<Rightarrow> int \<Rightarrow> db \<Rightarrow> (error + (session_row \<times> console_row) option) \<times> db" where
  "endSession_body cl sessionId now d =
     (case sessions d sessionId of
        None \<Rightarrow> (Inl SessionNotFoundOrEnded, d)
      | Some session \<Rightarrow>
          if ses_status session = Ended then (Inl SessionNotFoundOrEnded, d)
          else
            (case console_of d session of
               None \<Rightarrow> (Inl AssociatedConsoleNotFound, d)
             | Some selectedConsole \<Rightarrow>
                 let endTime = now;
                     activeDuration = endTime - ses_start_time session;
                     totalPausedMs0 = paused_or_0 (ses_total_paused_duration session);
                     totalPausedMs =
                       (case ses_paused_at session of
                          Some pausedAt \<Rightarrow>
                            if ses_status session = Paused
                            then totalPausedMs0 + (endTime - pausedAt) else totalPausedMs0
                        | None \<Rightarrow> totalPausedMs0);
                     finalActiveMs = activeDuration - totalPausedMs;
                     durationHours =
                       to_double (of_int (max 0 finalActiveMs) / (1000 * 60 * 60));
                     gamingMode = mode_or_1v1 (ses_gaming_mode session);
                     baseRate = to_double (con_hourly_rate selectedConsole);
                     rate2v2 =
                       decimal_or cl
                         (map_option to_double (con_hourly_rate_2v2 selectedConsole)) baseRate;
                     usedRate = (if gamingMode = Mode2v2 then rate2v2 else baseRate);
                     finalCost = to_double (durationHours * usedRate);
                     d1 = d\<lparr>sessions := (sessions d)(sessionId \<mapsto>
                            session\<lparr>ses_status := Ended,
                                    ses_end_time := Some endTime,
                                    ses_final_cost := Some (toFixed2 finalCost),
                                    ses_paused_at := None,
                                    ses_total_paused_duration := Some totalPausedMs\<rparr>)\<rparr>;
                     d2 = (case ses_console_id session of
                             None \<Rightarrow> d1
                           | Some cid \<Rightarrow>
                               d1\<lparr>consoles := (consoles d1)(cid \<mapsto>
                                     selectedConsole\<lparr>con_status := Available\<rparr>)\<rparr>)
                 in (Inr (findSessionById d2 sessionId), d2)))"

definition endSession ::
  "client \<Rightarrow> string \<Rightarrow> int \<Rightarrow> db \<Rightarrow> (error + (session_row \<times> console_row) option) \<times> db" where
  "endSession cl sessionId now = transaction (endSession_body cl sessionId now)"

subsection \<open>startSession\<close>

text \<open>
  A new row of \<open>sessions\<close> takes the column default 0 for \<open>total_paused_duration\<close> and null
  for the columns the insert does not name.
\<close>

definition startSession_body ::
  "client \<Rightarrow> string \<Rightarrow> gaming_mode \<Rightarrow> string \<Rightarrow> int \<Rightarrow> db
     \<Rightarrow> (error + (session_row \<times> console_row) option) \<times> db" where
  "startSession_body cl consoleId gamingMode ulid now d =
     (case consoles d consoleId of
        None \<Rightarrow> (Inl ConsoleNotAvailable, d)
      | Some selectedConsole \<Rightarrow>
          if con_status selectedConsole \<noteq> Available then (Inl ConsoleNotAvailable, d)
          else
            let baseRate = decimal_or cl (Some (con_hourly_rate selectedConsole)) 0;
                rate2v2 = decimal_or cl (con_hourly_rate_2v2 selectedConsole) 0
            in if gamingMode = Mode2v2 \<and> rate2v2 \<le> 0 then (Inl No2v2Support, d)
               else if baseRate \<le> 0 then (Inl NoValidHourlyRate, d)
               else
                 let d1 = d\<lparr>consoles := (consoles d)(consoleId \<mapsto>
                              selectedConsole\<lparr>con_status := InUse\<rparr>)\<rparr>;
                     newId = ''ses_'' @ ulid
                 in (case sessions d1 newId of
                       Some _ \<Rightarrow> (Inl DuplicateKey, d1)
                     | None \<Rightarrow>
                         let d2 = d1\<lparr>sessions := (sessions d1)(newId \<mapsto>
                                      \<lparr>ses_console_id = Some consoleId,
                                       ses_start_time = now,
                                       ses_end_time = None,
                                       ses_status = Active,
                                       ses_gaming_mode = Some gamingMode,
                                       ses_total_paused_duration = Some 0,
                                       ses_final_cost = None,
                                       ses_paused_at = None\<rparr>)\<rparr>
                         in (Inr (findSessionById d2 newId), d2)))"

definition startSession ::
  "client \<Rightarrow> string \<Rightarrow> gaming_mode \<Rightarrow> string \<Rightarrow> int \<Rightarrow> db
     \<Rightarrow> (error + (session_row \<times> console_row) option) \<times> db" where
  "startSession cl consoleId gamingMode ulid now =
     transaction (startSession_body cl consoleId gamingMode ulid now)"

subsection \<open>pauseSession and resumeSession\<close>

text \<open>
  Neither runs in a transaction. \<open>pauseSession\<close> updates the rows that match
  \<open>{ id, status: 'active' }\<close>, then reads the session back by its id alone.
\<close>

definition pauseSession ::
  "string \<Rightarrow> int \<Rightarrow> db \<Rightarrow> (error + (session_row \<times> console_row)) \<times> db" where
  "pauseSession sessionId now d =
     (let d1 = (case sessions d sessionId of
                  None \<Rightarrow> d
                | Some s \<Rightarrow>
                    if ses_status s = Active
                    then d\<lparr>sessions := (sessions d)(sessionId \<mapsto>
                             s\<lparr>ses_status := Paused, ses_paused_at := Some now\<rparr>)\<rparr>
                    else d)
      in case findSessionById d1 sessionId of
           None \<Rightarrow> (Inl ActiveSessionNotFound, d1)
         | Some updatedSession \<Rightarrow> (Inr updatedSession, d1))"

definition resumeSession ::
  "string \<Rightarrow> int \<Rightarrow> db \<Rightarrow> (error + (session_row \<times> console_row) option) \<times> db" where
  "resumeSession sessionId now d =
     (case sessions d sessionId of
        None \<Rightarrow> (Inl PausedSessionNotFound, d)
      | Some session \<Rightarrow>
          if ses_status session \<noteq> Paused then (Inl PausedSessionNotFound, d)
          else
            (case ses_paused_at session of
               None \<Rightarrow> (Inl PausedSessionNotFound, d)
             | Some pausedAt \<Rightarrow>
                 let pausedDuration = now - pausedAt;
                     newTotalPausedDuration =
                       paused_or_0 (ses_total_paused_duration session) + pausedDuration;
                     d1 = d\<lparr>sessions := (sessions d)(sessionId \<mapsto>
                            session\<lparr>ses_status := Active,
                                    ses_paused_at := None,
                                    ses_total_paused_duration :=
                                      Some newTotalPausedDuration\<rparr>)\<rparr>
                 in (Inr (findSessionById d1 sessionId), d1)))"

subsection \<open>addItemToSession\<close>

record added_item =
  ai_id :: nat
  ai_productId :: string
  ai_productName :: string
  ai_quantity :: int
  ai_unitPrice :: rat
  ai_subtotal :: rat

text \<open>\<open>table.increments('id')\<close>: one more than the largest id in the table.\<close>

definition next_item_id :: "session_item_row list \<Rightarrow> nat" where
  "next_item_id rows = Suc (foldr max (map si_id rows) 0)"

definition addItemToSession_body ::
  "string \<Rightarrow> string \<Rightarrow> int \<Rightarrow> db \<Rightarrow> (error + added_item) \<times> db" where
  "addItemToSession_body sessionId productId quantity d =
     (case sessions d sessionId of
        None \<Rightarrow> (Inl SessionNotActiveOrNotFound, d)
      | Some session \<Rightarrow>
          if ses_status session = Ended then (Inl SessionNotActiveOrNotFound, d)
          else
            (case products d productId of
               None \<Rightarrow> (Inl ProductNotFound, d)
             | Some product \<Rightarrow>
                 if prod_stock product < quantity
                 then (Inl (NotEnoughStock (prod_name product)), d)
                 else
                   let d1 = d\<lparr>products := (products d)(productId \<mapsto>
                                product\<lparr>prod_stock := prod_stock product - quantity\<rparr>)\<rparr>;
                       itemSubtotal = prod_price product * of_int quantity;
                       newItem = \<lparr>si_id = next_item_id (session_items d1),
                                  si_session_id = sessionId,
                                  si_product_id = productId,
                                  si_quantity = quantity,
                                  si_unit_price = prod_price product,
                                  si_subtotal = itemSubtotal\<rparr>;
                       d2 = d1\<lparr>session_items := session_items d1 @ [newItem]\<rparr>
                   in (Inr \<lparr>ai_id = si_id newItem,
                            ai_productId = productId,
                            ai_productName = prod_name product,
                            ai_quantity = quantity,
                            ai_unitPrice = prod_price product,
                            ai_subtotal = itemSubtotal\<rparr>, d2)))"

definition addItemToSession ::
  "string \<Rightarrow> string \<Rightarrow> int \<Rightarrow> db \<Rightarrow> (error + added_item) \<times> db" where
  "addItemToSession sessionId productId quantity =
     transaction (addItemToSession_body sessionId productId quantity)"

section \<open>Checkout service\<close>

record cart_item =
  ci_productId :: string
  ci_quantity :: int

record console_usage =
  cu_consoleName :: string
  cu_consoleType :: string
  cu_gamingMode :: gaming_mode
  cu_duration :: int
  cu_rate :: rat
  cu_baseRate :: rat
  cu_rate2v2 :: rat
  cu_calculatedCost :: rat
  cu_finalCost :: rat
  cu_subtotal :: rat

record receipt_line =
  rl_productId :: string
  rl_productName :: string
  rl_quantity :: int
  rl_unitPrice :: rat
  rl_subtotal :: rat

record receipt =
  r_id :: string
  r_sessionId :: "string option"
  r_consoleUsage :: "console_usage option"
  r_items :: "receipt_line list"
  r_subtotal :: rat
  r_tax :: rat
  r_total :: rat
  r_paymentMethod :: string

definition TAX_RATE :: rat where
  "TAX_RATE = 0"

text \<open>
  The locals that \<open>processCheckout\<close> declares before the session branch and that the branch
  assigns: with no session they keep their initial values.
\<close>

record console_charge =
  cc_calculatedConsolePrice :: rat
  cc_finalConsolePrice :: rat
  cc_gamingMode :: gaming_mode
  cc_baseHourlyRate :: rat
  cc_hourlyRate2v2 :: rat
  cc_usedHourlyRate :: rat
  cc_consoleUsageData :: "console_usage option"
  cc_subtotal :: rat

definition no_console_charge :: console_charge where
  "no_console_charge =
     \<lparr>cc_calculatedConsolePrice = 0, cc_finalConsolePrice = 0, cc_gamingMode = Mode1v1,
      cc_baseHourlyRate = 0, cc_hourlyRate2v2 = 0, cc_usedHourlyRate = 0,
      cc_consoleUsageData = None, cc_subtotal = 0\<rparr>"

text \<open>
  \<open>if (sessionId)\<close>, \<open>sessionId || null\<close>: an absent session id and the empty string are both
  falsy.
\<close>

definition truthy_id :: "string option \<Rightarrow> string option" where
  "truthy_id sessionId =
     (case sessionId of None \<Rightarrow> None | Some s \<Rightarrow> if s = [] then None else Some s)"

text \<open>\<open>name || fallback\<close> on a string: the empty string is falsy.\<close>

definition string_or :: "string \<Rightarrow> string \<Rightarrow> string" where
  "string_or v fallback = (if v = [] then fallback else v)"

text \<open>\<open>new Date(session.end_time).getTime()\<close>: \<open>new Date(null)\<close> is the epoch.\<close>

definition time_of :: "int option \<Rightarrow> int" where
  "time_of v = (case v of None \<Rightarrow> 0 | Some t \<Rightarrow> t)"

text \<open>The branch \<open>if (sessionId) { ... }\<close>: it reads the store and writes nothing.\<close>

definition session_charge :: "client \<Rightarrow> string \<Rightarrow> rat option \<Rightarrow> db \<Rightarrow> error + console_charge" where
  "session_charge cl sessionId manualConsolePrice d =
     (case sessions d sessionId of
        None \<Rightarrow> Inl SessionNotFound
      | Some session \<Rightarrow>
          if ses_status session \<noteq> Ended then Inl SessionNotEnded
          else
            (case find (\<lambda>r. rec_session_id r = Some sessionId) (receipts d) of
               Some existingReceipt \<Rightarrow> Inl AlreadyPaid
             | None \<Rightarrow>
                 (case ses_final_cost session of
                    None \<Rightarrow> Inl CostNotCalculated
                  | Some final_cost \<Rightarrow>
                      (case console_of d session of
                         None \<Rightarrow> Inl ConsoleNotFoundForSession
                       | Some console \<Rightarrow>
                           let gamingMode = mode_or_1v1 (ses_gaming_mode session);
                               baseHourlyRate =
                                 decimal_or cl (Some (con_hourly_rate console)) 0;
                               hourlyRate2v2 =
                                 decimal_or cl (con_hourly_rate_2v2 console)
                                   (baseHourlyRate * (3 / 2));
                               usedHourlyRate =
                                 (if gamingMode = Mode2v2 then hourlyRate2v2
                                  else baseHourlyRate);
                               calculatedConsolePrice = final_cost;
                               finalConsolePrice =
                                 (case manualConsolePrice of
                                    Some m \<Rightarrow> m
                                  | None \<Rightarrow> calculatedConsolePrice)
                           in if finalConsolePrice < 0 then Inl NegativeConsolePrice
                              else
                                let activeDurationMs =
                                      time_of (ses_end_time session) - ses_start_time session
                                        - paused_or_0 (ses_total_paused_duration session)
                                in Inr \<lparr>cc_calculatedConsolePrice = calculatedConsolePrice,
                                        cc_finalConsolePrice = finalConsolePrice,
                                        cc_gamingMode = gamingMode,
                                        cc_baseHourlyRate = baseHourlyRate,
                                        cc_hourlyRate2v2 = hourlyRate2v2,
                                        cc_usedHourlyRate = usedHourlyRate,
                                        cc_consoleUsageData = Some
                                          \<lparr>cu_consoleName =
                                             string_or (con_name console) ''Unknown Console'',
                                           cu_consoleType =
                                             string_or (con_type console) ''N/A'',
                                           cu_gamingMode = gamingMode,
                                           cu_duration =
                                             Math_round (of_int activeDurationMs / 60000),
                                           cu_rate = usedHourlyRate,
                                           cu_baseRate = baseHourlyRate,
                                           cu_rate2v2 = hourlyRate2v2,
                                           cu_calculatedCost = calculatedConsolePrice,
                                           cu_finalCost = finalConsolePrice,
                                           cu_subtotal = finalConsolePrice\<rparr>,
                                        cc_subtotal = 0 + finalConsolePrice\<rparr>))))"

text \<open>
  The loop \<open>for (const item of items)\<close>: each turn reads the product as the turns before left
  it, decrements its stock and appends a receipt line. The store it returns with an error is
  the store at the throw.
\<close>

fun process_items ::
  "cart_item list \<Rightarrow> rat \<Rightarrow> receipt_line list \<Rightarrow> db
     \<Rightarrow> (error + rat \<times> receipt_line list) \<times> db" where
  "process_items [] subtotal receiptItemsData d = (Inr (subtotal, receiptItemsData), d)"
| "process_items (item # items) subtotal receiptItemsData d =
     (case products d (ci_productId item) of
        None \<Rightarrow> (Inl (CartProductNotFound (ci_productId item)), d)
      | Some product \<Rightarrow>
          if prod_stock product < ci_quantity item
          then (Inl (CartNotEnoughStock (prod_name product) (prod_stock product)), d)
          else
            let d1 = d\<lparr>products := (products d)(ci_productId item \<mapsto>
                         product\<lparr>prod_stock := prod_stock product - ci_quantity item\<rparr>)\<rparr>;
                unitPrice = prod_price product;
                itemSubtotal = unitPrice * of_int (ci_quantity item)
            in process_items items (subtotal + itemSubtotal)
                 (receiptItemsData @
                    [\<lparr>rl_productId = ci_productId item,
                      rl_productName = prod_name product,
                      rl_quantity = ci_quantity item,
                      rl_unitPrice = unitPrice,
                      rl_subtotal = itemSubtotal\<rparr>]) d1)"

definition receipt_item_of :: "string \<Rightarrow> receipt_line \<Rightarrow> receipt_item_row" where
  "receipt_item_of receiptId it =
     \<lparr>ri_receipt_id = receiptId,
      ri_product_id = rl_productId it,
      ri_product_name = rl_productName it,
      ri_quantity = rl_quantity it,
      ri_unit_price = rl_unitPrice it,
      ri_subtotal = rl_subtotal it\<rparr>"

definition processCheckout_body ::
  "client \<Rightarrow> cart_item list \<Rightarrow> string \<Rightarrow> string option \<Rightarrow> rat option \<Rightarrow> string \<Rightarrow> db
     \<Rightarrow> (error + receipt) \<times> db" where
  "processCheckout_body cl items paymentMethod sessionId manualConsolePrice ulid d =
     (case (case truthy_id sessionId of
              None \<Rightarrow> Inr no_console_charge
            | Some sid \<Rightarrow> session_charge cl sid manualConsolePrice d) of
        Inl e \<Rightarrow> (Inl e, d)
      | Inr cc \<Rightarrow>
          (case process_items items (cc_subtotal cc) [] d of
             (Inl e, d1) \<Rightarrow> (Inl e, d1)
           | (Inr (subtotal, receiptItemsData), d1) \<Rightarrow>
               let tax = subtotal * TAX_RATE;
                   total = subtotal + tax;
                   charged = (truthy_id sessionId \<noteq> None);
                   newReceiptData =
                     \<lparr>rec_id = ''rec_'' @ ulid,
                      rec_subtotal = toFixed2 subtotal,
                      rec_tax = toFixed2 tax,
                      rec_total = toFixed2 total,
                      rec_payment_method = paymentMethod,
                      rec_session_id = truthy_id sessionId,
                      rec_manual_console_price =
                        (if charged \<and> manualConsolePrice \<noteq> None
                         then Some (toFixed2 (cc_finalConsolePrice cc)) else None),
                      rec_calculated_console_price =
                        (if charged then Some (toFixed2 (cc_calculatedConsolePrice cc))
                         else None),
                      rec_gaming_mode = (if charged then Some (cc_gamingMode cc) else None),
                      rec_base_hourly_rate =
                        (if charged then Some (toFixed2 (cc_baseHourlyRate cc)) else None),
                      rec_hourly_rate_2v2 =
                        (if charged then Some (toFixed2 (cc_hourlyRate2v2 cc)) else None)\<rparr>
               in (case find (\<lambda>r. rec_id r = rec_id newReceiptData) (receipts d1) of
                     Some _ \<Rightarrow> (Inl DuplicateKey, d1)
                   | None \<Rightarrow>
                       let d2 = d1\<lparr>receipts := receipts d1 @ [newReceiptData]\<rparr>;
                           insertedReceipt = newReceiptData;
                           d3 = (if receiptItemsData \<noteq> []
                                 then d2\<lparr>receipt_items := receipt_items d2 @
                                        map (receipt_item_of (rec_id insertedReceipt))
                                          receiptItemsData\<rparr>
                                 else d2)
                       in (Inr \<lparr>r_id = rec_id insertedReceipt,
                                r_sessionId = truthy_id sessionId,
                                r_consoleUsage = cc_consoleUsageData cc,
                                r_items = receiptItemsData,
                                r_subtotal = rec_subtotal insertedReceipt,
                                r_tax = rec_tax insertedReceipt,
                                r_total = rec_total insertedReceipt,
                                r_paymentMethod = rec_payment_method insertedReceipt\<rparr>,
                           d3))))"

definition processCheckout ::
  "client \<Rightarrow> cart_item list \<Rightarrow> string \<Rightarrow> string option \<Rightarrow> rat option \<Rightarrow> string \<Rightarrow> db
     \<Rightarrow> (error + receipt) \<times> db" where
  "processCheckout cl items paymentMethod sessionId manualConsolePrice ulid =
     transaction (processCheckout_body cl items paymentMethod sessionId manualConsolePrice ulid)"

subsection \<open>calculateSessionCost\<close>

text \<open>
  It reads the session joined with its console and writes nothing. The arithmetic is that of
  \<open>endSession\<close>, in doubles, but for the fallback of the 2v2 rate; the number it returns is the
  decimal that \<open>toFixed(2)\<close> printed.
\<close>

definition calculateSessionCost :: "client \<Rightarrow> string \<Rightarrow> gaming_mode \<Rightarrow> db \<Rightarrow> error + rat" where
  "calculateSessionCost cl sessionId gamingMode d =
     (case findSessionById d sessionId of
        None \<Rightarrow> Inl SessionNotFound
      | Some (session, console) \<Rightarrow>
          if ses_status session \<noteq> Ended then Inl MustBeEndedBeforeCost
          else
            let endTime = time_of (ses_end_time session);
                startTime = ses_start_time session;
                totalDurationMs = endTime - startTime;
                pausedDurationMs = paused_or_0 (ses_total_paused_duration session);
                activeDurationMs = max 0 (totalDurationMs - pausedDurationMs);
                durationHours = to_double (of_int activeDurationMs / (1000 * 60 * 60));
                baseRate = to_double (decimal_or cl (Some (con_hourly_rate console)) 0);
                rate2v2 =
                  decimal_or cl (map_option to_double (con_hourly_rate_2v2 console))
                    (to_double (baseRate * (3 / 2)));
                usedRate = (if gamingMode = Mode2v2 then rate2v2 else baseRate);
                cost = to_double (durationHours * usedRate)
            in Inr (toFixed2 cost))"

section \<open>Notions used to state the properties\<close>

text \<open>
  A sequence of pause, resume and end calls, each with the clock reading of its call. A call
  that throws leaves the store as its model returns it, and the sequence goes on.
\<close>

datatype session_op = Pause string | Resume string | End string

fun apply_session_op :: "client \<Rightarrow> session_op \<Rightarrow> int \<Rightarrow> db \<Rightarrow> db" where
  "apply_session_op cl (Pause sid) now d = snd (pauseSession sid now d)"
| "apply_session_op cl (Resume sid) now d = snd (resumeSession sid now d)"
| "apply_session_op cl (End sid) now d = snd (endSession cl sid now d)"

fun run_session_ops :: "client \<Rightarrow> (session_op \<times> int) list \<Rightarrow> db \<Rightarrow> db" where
  "run_session_ops cl [] d = d"
| "run_session_ops cl ((op, now) # rest) d =
     run_session_ops cl rest (apply_session_op cl op now d)"

text \<open>The paused time recorded for a session, read as the services read it.\<close>

definition total_paused :: "db \<Rightarrow> string \<Rightarrow> int" where
  "total_paused d sid =
     (case sessions d sid of
        None \<Rightarrow> 0
      | Some s \<Rightarrow> paused_or_0 (ses_total_paused_duration s))"

text \<open>The open pause of a session, if it has one, did not start after the instant \<open>now\<close>.\<close>

definition pause_not_after :: "int \<Rightarrow> db \<Rightarrow> string \<Rightarrow> bool" where
  "pause_not_after now d sid =
     (case sessions d sid of
        None \<Rightarrow> True
      | Some s \<Rightarrow> (case ses_paused_at s of None \<Rightarrow> True | Some t \<Rightarrow> t \<le> now))"


text \<open>No two receipts reference the same session.\<close>

definition one_receipt_per_session :: "db \<Rightarrow> bool" where
  "one_receipt_per_session d = distinct (List.map_filter rec_session_id (receipts d))"

section \<open>Example stores\<close>

text \<open>
  A small lounge used to run the services on concrete inputs: console c1 with the rates 8 and
  12 of the specification's scenario, console c2 with no stored 2v2 rate, console c3 under
  maintenance, console c4 with rates of 0, console c5 in use with no stored 2v2 rate,
  console c6 available with the rates 8 and 12, and the products of the catalogue.
\<close>

definition ex_console_c1 :: console_row where
  "ex_console_c1 =
     \<lparr>con_name = ''Station 1'', con_type = ''PS5'', con_status = InUse,
      con_hourly_rate = 8, con_hourly_rate_2v2 = Some 12\<rparr>"

definition ex_console_c2 :: console_row where
  "ex_console_c2 =
     \<lparr>con_name = ''Station 2'', con_type = ''PS4'', con_status = Available,
      con_hourly_rate = 10, con_hourly_rate_2v2 = None\<rparr>"

definition ex_console_c3 :: console_row where
  "ex_console_c3 =
     \<lparr>con_name = ''Station 3'', con_type = ''PS5'', con_status = Maintenance,
      con_hourly_rate = 10, con_hourly_rate_2v2 = Some 15\<rparr>"

definition ex_console_c4 :: console_row where
  "ex_console_c4 =
     \<lparr>con_name = ''Station 4'', con_type = ''PS4'', con_status = Available,
      con_hourly_rate = 0, con_hourly_rate_2v2 = Some 0\<rparr>"

definition ex_console_c5 :: console_row where
  "ex_console_c5 =
     \<lparr>con_name = ''Station 5'', con_type = ''PS4'', con_status = InUse,
      con_hourly_rate = 10, con_hourly_rate_2v2 = None\<rparr>"

definition ex_console_c6 :: console_row where
  "ex_console_c6 =
     \<lparr>con_name = ''Station 6'', con_type = ''PS5'', con_status = Available,
      con_hourly_rate = 8, con_hourly_rate_2v2 = Some 12\<rparr>"

definition ex_consoles :: "string \<rightharpoonup> console_row" where
  "ex_consoles =
     [''c1'' \<mapsto> ex_console_c1, ''c2'' \<mapsto> ex_console_c2, ''c3'' \<mapsto> ex_console_c3,
      ''c4'' \<mapsto> ex_console_c4, ''c5'' \<mapsto> ex_console_c5, ''c6'' \<mapsto> ex_console_c6]"

definition ex_products :: "string \<rightharpoonup> product_row" where
  "ex_products =
     [''prod-1'' \<mapsto> \<lparr>prod_name = ''Cola'', prod_price = 5 / 2, prod_stock = 45\<rparr>,
      ''prod-2'' \<mapsto> \<lparr>prod_name = ''Chips'', prod_price = 3, prod_stock = 1\<rparr>]"

text \<open>
  Session s1 runs on c1 in 2v2 mode: started at 1000, paused for 900000 ms so far, and paused
  again since 3001000. Session s2 ended on c1 after one billable hour at the rate 8.
  Session s3 runs in 2v2 mode on c5, whose 2v2 rate was removed after the start. Session s4
  ended after one hour on a console that has since been deleted.
\<close>

definition ex_paused_session :: session_row where
  "ex_paused_session =
     \<lparr>ses_console_id = Some ''c1'', ses_start_time = 1000, ses_end_time = None,
      ses_status = Paused, ses_gaming_mode = Some Mode2v2,
      ses_total_paused_duration = Some 900000, ses_final_cost = None,
      ses_paused_at = Some 3001000\<rparr>"

definition ex_ended_session :: session_row where
  "ex_ended_session =
     \<lparr>ses_console_id = Some ''c1'', ses_start_time = 0, ses_end_time = Some 4500000,
      ses_status = Ended, ses_gaming_mode = Some Mode1v1,
      ses_total_paused_duration = Some 900000, ses_final_cost = Some 8,
      ses_paused_at = None\<rparr>"

definition ex_2v2_session :: session_row where
  "ex_2v2_session =
     \<lparr>ses_console_id = Some ''c5'', ses_start_time = 0, ses_end_time = None,
      ses_status = Active, ses_gaming_mode = Some Mode2v2,
      ses_total_paused_duration = Some 0, ses_final_cost = None,
      ses_paused_at = None\<rparr>"

definition ex_orphan_session :: session_row where
  "ex_orphan_session =
     \<lparr>ses_console_id = None, ses_start_time = 0, ses_end_time = Some 3600000,
      ses_status = Ended, ses_gaming_mode = Some Mode1v1,
      ses_total_paused_duration = Some 0, ses_final_cost = Some 8,
      ses_paused_at = None\<rparr>"

definition ex_db :: db where
  "ex_db =
     \<lparr>consoles = ex_consoles,
      sessions = [''s1'' \<mapsto> ex_paused_session, ''s2'' \<mapsto> ex_ended_session,
                  ''s3'' \<mapsto> ex_2v2_session, ''s4'' \<mapsto> ex_orphan_session],
      products = ex_products,
      session_items = [], receipts = [], receipt_items = []\<rparr>"

text \<open>
  A second store for the arithmetic of the cost: session s5 runs in 1v1 mode since 0 on
  console c7 at the rate 10, session s6 on console c8, whose rate was set to -5.
\<close>

definition ex_console_c7 :: console_row where
  "ex_console_c7 =
     \<lparr>con_name = ''Station 7'', con_type = ''PS5'', con_status = InUse,
      con_hourly_rate = 10, con_hourly_rate_2v2 = Some 15\<rparr>"

definition ex_console_c8 :: console_row where
  "ex_console_c8 =
     \<lparr>con_name = ''Station 8'', con_type = ''PS4'', con_status = InUse,
      con_hourly_rate = - 5, con_hourly_rate_2v2 = None\<rparr>"

definition ex_session_on :: "string \<Rightarrow> session_row" where
  "ex_session_on cid =
     \<lparr>ses_console_id = Some cid, ses_start_time = 0, ses_end_time = None,
      ses_status = Active, ses_gaming_mode = Some Mode1v1,
      ses_total_paused_duration = Some 0, ses_final_cost = None,
      ses_paused_at = None\<rparr>"

definition ex_cost_db :: db where
  "ex_cost_db =
     \<lparr>consoles = [''c7'' \<mapsto> ex_console_c7, ''c8'' \<mapsto> ex_console_c8],
      sessions = [''s5'' \<mapsto> ex_session_on ''c7'', ''s6'' \<mapsto> ex_session_on ''c8''],
      products = Map.empty,
      session_items = [], receipts = [], receipt_items = []\<rparr>"

text \<open>
  A cart of two Cola and five Chips (one more Chips than the stock has), and a run of calls
  on session s1: resumed at 3100000, paused again at 3200000, ended at 3500000.
\<close>

definition ex_cart :: "cart_item list" where
  "ex_cart =
     [\<lparr>ci_productId = ''prod-1'', ci_quantity = 2\<rparr>,
      \<lparr>ci_productId = ''prod-2'', ci_quantity = 5\<rparr>]"

definition ex_ops :: "(session_op \<times> int) list" where
  "ex_ops = [(Resume ''s1'', 3100000), (Pause ''s1'', 3200000), (End ''s1'', 3500000)]"

section \<open>Properties\<close>

subsection \<open>Arithmetic of the helpers\<close>

lemma floor_rat_numeral [simp]:
  "\<lfloor>numeral a / numeral b :: rat\<rfloor> = numeral a div numeral b"
  by (metis floor_divide_of_int_eq of_int_numeral)

lemma floor_rat_one [simp]: "\<lfloor>1 / numeral b :: rat\<rfloor> = 1 div numeral b"
  by (metis floor_divide_of_int_eq of_int_numeral of_int_1)

lemma toFixed2_nonneg: "0 \<le> x \<Longrightarrow> 0 \<le> toFixed2 x"
  by (simp add: toFixed2_def)

lemma toFixed2_cents: "toFixed2 (of_int n / 100) = of_int n / 100"
  by (simp add: toFixed2_def)

lemma toFixed2_is_cents: "\<exists>n. toFixed2 x = of_int n / 100"
  by (auto simp: toFixed2_def intro: exI [of _ "- \<lfloor>- x * 100 + 1 / 2\<rfloor>"])

lemma cents_near:
  fixes y :: rat
  assumes "of_int n \<le> y * 100 + 1 / 2" and "y * 100 + 1 / 2 < of_int n + 1"
  shows "\<bar>of_int n / 100 - y\<bar> \<le> 1 / 200"
  using assms by linarith

lemma toFixed2_near: "\<bar>toFixed2 x - x\<bar> \<le> 1 / 200"
proof (cases "x < 0")
  case False
  have "\<bar>of_int \<lfloor>x * 100 + 1 / 2\<rfloor> / 100 - x\<bar> \<le> 1 / 200"
    by (rule cents_near) linarith+
  with False show ?thesis by (simp add: toFixed2_def)
next
  case True
  have "\<bar>of_int \<lfloor>(- x) * 100 + 1 / 2\<rfloor> / 100 - (- x)\<bar> \<le> 1 / 200"
    by (rule cents_near) linarith+
  then have "\<bar>- (of_int \<lfloor>(- x) * 100 + 1 / 2\<rfloor> / 100) - x\<bar> \<le> 1 / 200"
    by linarith
  with True show ?thesis by (simp add: toFixed2_def)
qed

lemma pow2_pos: "0 < pow2 e"
  by (simp add: pow2_def)

lemma round_half_even_nonneg: "0 \<le> x \<Longrightarrow> 0 \<le> round_half_even x"
  by (auto simp: round_half_even_def Let_def)

lemma to_double_nonneg: "0 \<le> x \<Longrightarrow> 0 \<le> to_double x"
  by (auto simp: to_double_def Let_def pow2_pos less_imp_le round_half_even_nonneg
      intro!: mult_nonneg_nonneg divide_nonneg_pos)

text \<open>Doubles and costs of the examples, computed with the definitions.\<close>

lemma to_double_small_ints:
  "to_double 1 = 1" "to_double 8 = 8" "to_double 10 = 10" "to_double 12 = 12"
  "to_double 15 = 15" "to_double (- 5) = - 5"
  by code_simp+

lemma ex_costs:
  "toFixed2 (to_double (to_double (7 / 12) * 12)) = 7"
  "toFixed2 (to_double (to_double (2001 / 2000) * 10)) = 10"
  "toFixed2 (2001 / 2000 * 10) = 1001 / 100"
  by code_simp+

lemma decimal_or_positive: "0 < r \<Longrightarrow> decimal_or cl (Some r) fallback = r"
  by (simp add: decimal_or_def)

lemma decimal_or_None: "decimal_or cl None fallback = fallback"
  by (simp add: decimal_or_def)

lemma decimal_or_0: "decimal_or cl (Some r) 0 = r"
  by (simp add: decimal_or_def)

subsection \<open>The cost stored by endSession\<close>

lemma endSession_stores:
  assumes "sessions d sid = Some s" and "ses_status s \<noteq> Ended"
    and "console_of d s = Some c"
    and "T0 = ses_start_time s" and "P0 = paused_or_0 (ses_total_paused_duration s)"
    and "openPause = (if ses_status s = Paused
                      then (case ses_paused_at s of Some Tp \<Rightarrow> T1 - Tp | None \<Rightarrow> 0) else 0)"
    and "rateUsed = (if mode_or_1v1 (ses_gaming_mode s) = Mode2v2
                     then decimal_or cl (map_option to_double (con_hourly_rate_2v2 c))
                            (to_double (con_hourly_rate c))
                     else to_double (con_hourly_rate c))"
    and "cost = to_double
                  (to_double (of_int (max 0 ((T1 - T0) - (P0 + openPause))) / 3600000) * rateUsed)"
  shows "\<exists>res s'. fst (endSession cl sid T1 d) = Inr res
           \<and> sessions (snd (endSession cl sid T1 d)) sid = Some s'
           \<and> ses_status s' = Ended \<and> ses_final_cost s' = Some (toFixed2 cost)"
  using assms(1-3)
  unfolding assms(8) assms(7) assms(6) assms(5) assms(4)
  by (cases "ses_paused_at s"; cases "ses_console_id s")
     (auto simp: endSession_def endSession_body_def transaction_def Let_def console_of_def
        algebra_simps)

text \<open>
  Claim C1, as amended. A session that is not yet ended and whose console exists is ended by
  \<open>endSession\<close> at time \<open>T1\<close>: its status becomes ended and the stored final cost is
  \<open>toFixed2\<close> of the cost that the code computes in double arithmetic,
  \<open>to_double (to_double (max 0 ((T1 - T0) - (P0 + openPause)) / 3600000) * rateUsed)\<close>, where
  \<open>T0\<close> is the start time, \<open>P0\<close> the paused time recorded so far, \<open>openPause\<close> is \<open>T1 - Tp\<close> for
  a session paused since \<open>Tp\<close> and 0 otherwise, and \<open>rateUsed\<close> is the double of the console's
  2v2 rate in 2v2 mode (of its 1v1 rate where no 2v2 rate is stored, or where sqlite3 returns
  a 2v2 rate of 0) and of its 1v1 rate otherwise. The stored cost is a whole number of cents
  within half a cent of the computed cost, and it is not negative when the rate used is not
  negative.
\<close>

theorem endSession_final_cost:
  assumes "sessions d sid = Some s" and "ses_status s \<noteq> Ended"
    and "console_of d s = Some c"
    and "T0 = ses_start_time s" and "P0 = paused_or_0 (ses_total_paused_duration s)"
    and "openPause = (if ses_status s = Paused
                      then (case ses_paused_at s of Some Tp \<Rightarrow> T1 - Tp | None \<Rightarrow> 0) else 0)"
    and "rateUsed = (if mode_or_1v1 (ses_gaming_mode s) = Mode2v2
                     then decimal_or cl (map_option to_double (con_hourly_rate_2v2 c))
                            (to_double (con_hourly_rate c))
                     else to_double (con_hourly_rate c))"
    and "cost = to_double
                  (to_double (of_int (max 0 ((T1 - T0) - (P0 + openPause))) / 3600000) * rateUsed)"
    and "finalCost = toFixed2 cost"
  shows "\<exists>res s'. fst (endSession cl sid T1 d) = Inr res
           \<and> sessions (snd (endSession cl sid T1 d)) sid = Some s'
           \<and> ses_status s' = Ended \<and> ses_final_cost s' = Some finalCost
           \<and> (\<exists>n. finalCost = of_int n / 100) \<and> \<bar>finalCost - cost\<bar> \<le> 1 / 200
           \<and> (0 \<le> rateUsed \<longrightarrow> 0 \<le> finalCost)"
proof -
  have "0 \<le> cost" if "0 \<le> rateUsed"
    unfolding assms(8) using that
    by (intro to_double_nonneg mult_nonneg_nonneg divide_nonneg_nonneg) simp_all
  then have nonneg: "0 \<le> rateUsed \<longrightarrow> 0 \<le> toFixed2 cost"
    by (simp add: toFixed2_nonneg)
  from endSession_stores [OF assms(1-8)] obtain res s' where
    "fst (endSession cl sid T1 d) = Inr res"
    "sessions (snd (endSession cl sid T1 d)) sid = Some s'"
    "ses_status s' = Ended" "ses_final_cost s' = Some (toFixed2 cost)"
    by blast
  with nonneg toFixed2_is_cents [of cost] toFixed2_near [of cost]
  show ?thesis
    unfolding assms(9) by blast
qed

text \<open>
  Session s1 of the example store, in 2v2 mode at the rate 12, is ended at 5401000 while
  paused since 3001000: 5400000 ms since the start, less 900000 + 2400000 ms of pause, are
  2100000 billable ms, and 7/12 h at 12 cost 7.00.
\<close>

theorem endSession_final_cost_witness:
  "sessions ex_db ''s1'' = Some ex_paused_session
   \<and> ses_status ex_paused_session \<noteq> Ended
   \<and> console_of ex_db ex_paused_session = Some ex_console_c1
   \<and> (\<exists>res s'. fst (endSession Sqlite3 ''s1'' 5401000 ex_db) = Inr res
          \<and> sessions (snd (endSession Sqlite3 ''s1'' 5401000 ex_db)) ''s1'' = Some s'
          \<and> ses_status s' = Ended \<and> ses_final_cost s' = Some 7)"
proof -
  have 1: "sessions ex_db ''s1'' = Some ex_paused_session"
    by (simp add: ex_db_def)
  have 2: "ses_status ex_paused_session \<noteq> Ended"
    by (simp add: ex_paused_session_def)
  have 3: "console_of ex_db ex_paused_session = Some ex_console_c1"
    by (simp add: console_of_def ex_db_def ex_paused_session_def ex_consoles_def)
  have 4: "1000 = ses_start_time ex_paused_session"
    and 5: "900000 = paused_or_0 (ses_total_paused_duration ex_paused_session)"
    and 6: "2400000 = (if ses_status ex_paused_session = Paused
              then (case ses_paused_at ex_paused_session of
                      Some Tp \<Rightarrow> 5401000 - Tp | None \<Rightarrow> 0)
              else 0)"
    and 7: "12 = (if mode_or_1v1 (ses_gaming_mode ex_paused_session) = Mode2v2
              then decimal_or Sqlite3 (map_option to_double (con_hourly_rate_2v2 ex_console_c1))
                     (to_double (con_hourly_rate ex_console_c1))
              else to_double (con_hourly_rate ex_console_c1))"
    by (simp_all add: ex_paused_session_def ex_console_c1_def paused_or_0_def mode_or_1v1_def
        decimal_or_def to_double_small_ints)
  have 8: "to_double (to_double (7 / 12) * 12) =
      to_double (to_double
        (of_int (max 0 ((5401000 - 1000) - (900000 + 2400000))) / 3600000) * 12)"
    by simp
  have 9: "(7::rat) = toFixed2 (to_double (to_double (7 / 12) * 12))"
    by (simp add: ex_costs)
  from endSession_final_cost [OF 1 2 3 4 5 6 7 8 9] 1 2 3
  show ?thesis by blast
qed

text \<open>
  Claim C1 as it is stated, with the exact product rounded to cents and a cost that is never
  negative, fails on both counts. Session s5 is ended after 3601800 ms at the rate 10: the
  exact cost is 10.005, which rounds to 10.01, but the doubles of the code give
  10.004999999999999 and 10.00 is stored. And \<open>endSession\<close> does not look at the sign of the
  rate: session s6, one hour on a console whose rate is -5, stores -5.00.
\<close>

theorem endSession_final_cost_counterexample:
  "map_option ses_final_cost (sessions (snd (endSession Sqlite3 ''s5'' 3601800 ex_cost_db)) ''s5'')
     = Some (Some 10)
   \<and> toFixed2 (of_int (max 0 ((3601800 - 0) - (0 + 0))) / 3600000 * 10) = 1001 / 100
   \<and> map_option ses_final_cost (sessions (snd (endSession Sqlite3 ''s6'' 3600000 ex_cost_db)) ''s6'')
     = Some (Some (- 5))"
proof -
  have s5: "sessions ex_cost_db ''s5'' = Some (ex_session_on ''c7'')"
    and s6: "sessions ex_cost_db ''s6'' = Some (ex_session_on ''c8'')"
    by (simp_all add: ex_cost_db_def)
  have c7: "console_of ex_cost_db (ex_session_on ''c7'') = Some ex_console_c7"
    and c8: "console_of ex_cost_db (ex_session_on ''c8'') = Some ex_console_c8"
    by (simp_all add: console_of_def ex_cost_db_def ex_session_on_def)
  have n: "ses_status (ex_session_on cid) \<noteq> Ended" for cid
    by (simp add: ex_session_on_def)
  from endSession_stores [OF s5 n c7 refl refl refl refl refl, where cl = Sqlite3 and ?T1.0 = 3601800]
  have a: "map_option ses_final_cost
             (sessions (snd (endSession Sqlite3 ''s5'' 3601800 ex_cost_db)) ''s5'') = Some (Some 10)"
    by (auto simp: ex_session_on_def ex_console_c7_def mode_or_1v1_def paused_or_0_def
        to_double_small_ints ex_costs)
  from endSession_stores [OF s6 n c8 refl refl refl refl refl, where cl = Sqlite3 and ?T1.0 = 3600000]
  have b: "map_option ses_final_cost
             (sessions (snd (endSession Sqlite3 ''s6'' 3600000 ex_cost_db)) ''s6'')
             = Some (Some (- 5))"
    by (auto simp: ex_session_on_def ex_console_c8_def mode_or_1v1_def paused_or_0_def
        to_double_small_ints toFixed2_def)
  have c: "toFixed2 (of_int (max 0 ((3601800 - 0) - (0 + 0))) / 3600000 * 10) = 1001 / 100"
    by (simp add: toFixed2_def)
  from a b c show ?thesis by blast
qed

text \<open>
  The scenario of the specification, run through the four services: a 1v1 session starts on
  c6 (rates 8 and 12) at 0, is paused at 30 min, resumed at 45 min and ended at 75 min. It
  has 15 min of pause recorded and one billable hour, and costs 8.00.
\<close>

lemma session_lifecycle_scenario:
  "\<exists>s'. sessions
          (snd (endSession cl ''ses_01J'' 4500000
             (snd (resumeSession ''ses_01J'' 2700000
                (snd (pauseSession ''ses_01J'' 1800000
                   (snd (startSession cl ''c6'' Mode1v1 ''01J'' 0 ex_db))))))))
          ''ses_01J'' = Some s'
      \<and> ses_status s' = Ended \<and> ses_total_paused_duration s' = Some 900000
      \<and> ses_final_cost s' = Some 8"
  by (simp add: startSession_def startSession_body_def pauseSession_def resumeSession_def
      endSession_def endSession_body_def transaction_def findSessionById_def console_of_def
      Let_def ex_db_def ex_consoles_def ex_console_c6_def decimal_or_def mode_or_1v1_def
      paused_or_0_def toFixed2_def to_double_small_ints)

subsection \<open>The checks of startSession\<close>

text \<open>
  Claim C9. \<open>startSession\<close> fails with the console-unavailable error whenever the console is
  missing or its status is not available, whatever mode is requested. On an available
  console it fails with an unsupported-mode error when the requested mode has no positive
  rate: 2v2 with no stored 2v2 rate or one that is not positive, 1v1 with a 1v1 rate that is
  not positive. Every failure leaves the store as it was. Whenever it succeeds, the console
  was available, the store holds a new active session on that console in the requested mode,
  and the console's status is in-use; and it does succeed on an available console whose rate
  for the mode (and whose 1v1 rate) is positive, the new session id being unused.
\<close>

theorem startSession_checks:
  "((consoles d cid = None \<or> (\<exists>c. consoles d cid = Some c \<and> con_status c \<noteq> Available))
      \<longrightarrow> startSession cl cid mode ulid now d = (Inl ConsoleNotAvailable, d))
   \<and> (\<forall>c. consoles d cid = Some c \<and> con_status c = Available
          \<and> mode = Mode2v2 \<and> (\<forall>r. con_hourly_rate_2v2 c = Some r \<longrightarrow> r \<le> 0)
        \<longrightarrow> startSession cl cid mode ulid now d = (Inl No2v2Support, d))
   \<and> (\<forall>c. consoles d cid = Some c \<and> con_status c = Available
          \<and> mode = Mode1v1 \<and> con_hourly_rate c \<le> 0
        \<longrightarrow> startSession cl cid mode ulid now d = (Inl NoValidHourlyRate, d))
   \<and> (\<forall>res d'. startSession cl cid mode ulid now d = (Inr res, d')
        \<longrightarrow> (\<exists>c s'. consoles d cid = Some c \<and> con_status c = Available
              \<and> sessions d (''ses_'' @ ulid) = None
              \<and> sessions d' (''ses_'' @ ulid) = Some s'
              \<and> ses_status s' = Active \<and> ses_console_id s' = Some cid
              \<and> ses_gaming_mode s' = Some mode \<and> ses_start_time s' = now
              \<and> consoles d' cid = Some (c\<lparr>con_status := InUse\<rparr>)))
   \<and> (\<forall>c. consoles d cid = Some c \<and> con_status c = Available \<and> 0 < con_hourly_rate c
          \<and> (mode = Mode2v2 \<longrightarrow> (\<exists>r. con_hourly_rate_2v2 c = Some r \<and> 0 < r))
          \<and> sessions d (''ses_'' @ ulid) = None
        \<longrightarrow> (\<exists>res. fst (startSession cl cid mode ulid now d) = Inr res))"
  by (auto simp: startSession_def startSession_body_def transaction_def Let_def decimal_or_def
      split: option.splits if_splits)

text \<open>
  On the example store: c3 is under maintenance and c9 does not exist, c2 has no 2v2 rate,
  c4 has a 1v1 rate of 0, and a 1v1 session starts on c2.
\<close>

theorem startSession_checks_witness:
  "startSession Sqlite3 ''c3'' Mode2v2 ''01J'' 1000 ex_db = (Inl ConsoleNotAvailable, ex_db)
   \<and> startSession Sqlite3 ''c9'' Mode1v1 ''01J'' 1000 ex_db = (Inl ConsoleNotAvailable, ex_db)
   \<and> startSession Sqlite3 ''c2'' Mode2v2 ''01J'' 1000 ex_db = (Inl No2v2Support, ex_db)
   \<and> startSession Sqlite3 ''c4'' Mode1v1 ''01J'' 1000 ex_db = (Inl NoValidHourlyRate, ex_db)
   \<and> (\<exists>res d' s'. startSession Sqlite3 ''c2'' Mode1v1 ''01J'' 1000 ex_db = (Inr res, d')
          \<and> sessions d' ''ses_01J'' = Some s' \<and> ses_status s' = Active
          \<and> ses_console_id s' = Some ''c2''
          \<and> consoles d' ''c2'' = Some (ex_console_c2\<lparr>con_status := InUse\<rparr>))"
proof -
  have c2: "consoles ex_db ''c2'' = Some ex_console_c2"
    and c3: "consoles ex_db ''c3'' = Some ex_console_c3"
    and c4: "consoles ex_db ''c4'' = Some ex_console_c4"
    and c9: "consoles ex_db ''c9'' = None"
    and fresh: "sessions ex_db (''ses_'' @ ''01J'') = None"
    by (simp_all add: ex_db_def ex_consoles_def)
  have a: "startSession Sqlite3 ''c3'' Mode2v2 ''01J'' 1000 ex_db
             = (Inl ConsoleNotAvailable, ex_db)"
    using startSession_checks [of ex_db "''c3''" Sqlite3 Mode2v2 "''01J''" 1000] c3
    by (simp add: ex_console_c3_def)
  have b: "startSession Sqlite3 ''c9'' Mode1v1 ''01J'' 1000 ex_db
             = (Inl ConsoleNotAvailable, ex_db)"
    using startSession_checks [of ex_db "''c9''" Sqlite3 Mode1v1 "''01J''" 1000] c9
    by simp
  have c: "startSession Sqlite3 ''c2'' Mode2v2 ''01J'' 1000 ex_db = (Inl No2v2Support, ex_db)"
    using startSession_checks [of ex_db "''c2''" Sqlite3 Mode2v2 "''01J''" 1000] c2
    by (simp add: ex_console_c2_def)
  have d: "startSession Sqlite3 ''c4'' Mode1v1 ''01J'' 1000 ex_db
             = (Inl NoValidHourlyRate, ex_db)"
    using startSession_checks [of ex_db "''c4''" Sqlite3 Mode1v1 "''01J''" 1000] c4
    by (simp add: ex_console_c4_def)
  have "\<exists>res. fst (startSession Sqlite3 ''c2'' Mode1v1 ''01J'' 1000 ex_db) = Inr res"
    using startSession_checks [of ex_db "''c2''" Sqlite3 Mode1v1 "''01J''" 1000] c2 fresh
    by (simp add: ex_console_c2_def)
  then obtain res d' where
    ok: "startSession Sqlite3 ''c2'' Mode1v1 ''01J'' 1000 ex_db = (Inr res, d')"
    by (metis prod.collapse)
  have e: "\<exists>s'. sessions d' ''ses_01J'' = Some s' \<and> ses_status s' = Active
          \<and> ses_console_id s' = Some ''c2''
          \<and> consoles d' ''c2'' = Some (ex_console_c2\<lparr>con_status := InUse\<rparr>)"
    using startSession_checks [of ex_db "''c2''" Sqlite3 Mode1v1 "''01J''" 1000] ok c2
    by auto
  from a b c d e ok show ?thesis by blast
qed

subsection \<open>pauseSession on a session that is not active\<close>

lemma pauseSession_not_active:
  assumes "sessions d sid = Some s" and "ses_status s \<noteq> Active" and "console_of d s = Some c"
  shows "pauseSession sid now d = (Inr (s, c), d)"
  using assms by (simp add: pauseSession_def findSessionById_def)

lemma pauseSession_active:
  assumes "sessions d sid = Some s" and "ses_status s = Active" and "console_of d s = Some c"
  shows "pauseSession sid now d =
           (Inr (s\<lparr>ses_status := Paused, ses_paused_at := Some now\<rparr>, c),
            d\<lparr>sessions := (sessions d)(sid \<mapsto>
                s\<lparr>ses_status := Paused, ses_paused_at := Some now\<rparr>)\<rparr>)"
  using assms
  by (auto simp: pauseSession_def findSessionById_def console_of_def Let_def
      split: option.splits)

text \<open>
  Claim C5 says that \<open>pauseSession\<close> on an existing session that is paused or ended fails with
  an invalid-transition error. The update of \<open>pauseSession\<close> matches active rows only, so the
  session is left unchanged and a pause is recorded only from the active state; but the
  function then reads the session back by its id alone and throws only if that finds nothing.
  On the paused session s1 and on the ended session s2 of the example store it returns the
  unchanged session instead of throwing.
\<close>

theorem pauseSession_returns_on_paused_and_ended:
  "pauseSession ''s1'' 4000000 ex_db = (Inr (ex_paused_session, ex_console_c1), ex_db)
   \<and> pauseSession ''s2'' 4000000 ex_db = (Inr (ex_ended_session, ex_console_c1), ex_db)"
proof -
  have "sessions ex_db ''s1'' = Some ex_paused_session"
    and "sessions ex_db ''s2'' = Some ex_ended_session"
    by (simp_all add: ex_db_def)
  moreover have "ses_status ex_paused_session \<noteq> Active"
    and "ses_status ex_ended_session \<noteq> Active"
    by (simp_all add: ex_paused_session_def ex_ended_session_def)
  moreover have "console_of ex_db ex_paused_session = Some ex_console_c1"
    and "console_of ex_db ex_ended_session = Some ex_console_c1"
    by (simp_all add: console_of_def ex_db_def ex_paused_session_def ex_ended_session_def
        ex_consoles_def)
  ultimately show ?thesis
    by (simp add: pauseSession_not_active)
qed

subsection \<open>addItemToSession\<close>

lemma addItemToSession_succeeds_iff:
  "(\<exists>item. fst (addItemToSession sid pid quantity d) = Inr item)
     \<longleftrightarrow> (\<exists>s p. sessions d sid = Some s \<and> ses_status s \<noteq> Ended
            \<and> products d pid = Some p \<and> quantity \<le> prod_stock p)"
  by (auto simp: addItemToSession_def addItemToSession_body_def transaction_def Let_def
      split: option.splits if_splits)

lemma addItemToSession_failure_unchanged:
  "fst (addItemToSession sid pid quantity d) = Inl e
     \<Longrightarrow> snd (addItemToSession sid pid quantity d) = d"
  by (auto simp: addItemToSession_def transaction_def split: prod.splits sum.splits)

lemma addItemToSession_success:
  assumes "addItemToSession sid pid quantity d = (Inr item, d')"
  shows "\<exists>p. products d pid = Some p
           \<and> products d' = (products d)(pid \<mapsto> p\<lparr>prod_stock := prod_stock p - quantity\<rparr>)
           \<and> session_items d' = session_items d @
                [\<lparr>si_id = next_item_id (session_items d), si_session_id = sid,
                  si_product_id = pid, si_quantity = quantity,
                  si_unit_price = prod_price p,
                  si_subtotal = prod_price p * of_int quantity\<rparr>]
           \<and> ai_unitPrice item = prod_price p
           \<and> ai_subtotal item = of_int quantity * prod_price p"
  using assms
  by (auto simp: addItemToSession_def addItemToSession_body_def transaction_def Let_def
      split: option.splits if_splits)

text \<open>
  The scenario of the specification: three Cola at 2.50 leave 42 in stock and a line of 7.50.
\<close>

lemma addItemToSession_scenario:
  "\<exists>item d' p'. addItemToSession ''s1'' ''prod-1'' 3 ex_db = (Inr item, d')
      \<and> ai_subtotal item = 15 / 2
      \<and> products d' ''prod-1'' = Some p' \<and> prod_stock p' = 42"
  by (simp add: addItemToSession_def addItemToSession_body_def transaction_def Let_def
      ex_db_def ex_products_def ex_paused_session_def)

text \<open>
  Claim C6 says that \<open>addItemToSession\<close> succeeds only if \<open>quantity > 0\<close>. The function compares
  the stock with the quantity and nothing else (lemma \<open>addItemToSession_succeeds_iff\<close>), so a
  negative quantity passes: adding -3 Cola to session s1 succeeds, raises the stock from 45
  to 48 and appends a tab line with the subtotal -7.50.
\<close>

theorem addItemToSession_negative_quantity:
  "\<exists>item d' p'. addItemToSession ''s1'' ''prod-1'' (- 3) ex_db = (Inr item, d')
      \<and> ai_quantity item = - 3 \<and> ai_subtotal item = - (15 / 2)
      \<and> products d' ''prod-1'' = Some p' \<and> prod_stock p' = 48
      \<and> length (session_items d') = 1"
  by (simp add: addItemToSession_def addItemToSession_body_def transaction_def Let_def
      ex_db_def ex_products_def ex_paused_session_def)

subsection \<open>calculateSessionCost against the stored cost\<close>

text \<open>
  Where the mode of the session is 1v1, or the console stores a 2v2 rate whose double is not
  0, the cost that \<open>calculateSessionCost\<close> derives after \<open>endSession\<close> is the cost \<open>endSession\<close>
  stored.
\<close>

lemma calculateSessionCost_agrees:
  assumes "sessions d sid = Some s" and "ses_status s \<noteq> Ended"
    and "console_of d s = Some c"
    and "mode_or_1v1 (ses_gaming_mode s) = Mode2v2
           \<longrightarrow> (\<exists>r. con_hourly_rate_2v2 c = Some r \<and> to_double r \<noteq> 0)"
  shows "\<exists>s' cost. sessions (snd (endSession cl sid T1 d)) sid = Some s'
           \<and> ses_final_cost s' = Some cost
           \<and> calculateSessionCost cl sid (mode_or_1v1 (ses_gaming_mode s))
                (snd (endSession cl sid T1 d)) = Inr cost"
  using assms
  by (cases "ses_console_id s"; cases "ses_paused_at s")
     (auto simp: endSession_def endSession_body_def transaction_def Let_def
        calculateSessionCost_def findSessionById_def console_of_def decimal_or_def
        paused_or_0_def time_of_def max_def)

text \<open>
  Claim C7 says that \<open>calculateSessionCost\<close> for the mode of the session returns the stored
  final cost for every rate configuration, a console with no stored 2v2 rate included. The
  two functions fall back differently there: \<open>endSession\<close> to the 1v1 rate,
  \<open>calculateSessionCost\<close> to 1.5 times the 1v1 rate. Session s3, in 2v2 mode on console c5
  (1v1 rate 10, no 2v2 rate), ended after one hour: the stored cost is 10.00 and
  \<open>calculateSessionCost\<close> returns 15.00.
\<close>

theorem calculateSessionCost_differs_from_stored_cost:
  "\<exists>res d' s'. endSession cl ''s3'' 3600000 ex_db = (Inr res, d')
      \<and> sessions d' ''s3'' = Some s' \<and> ses_status s' = Ended
      \<and> ses_gaming_mode s' = Some Mode2v2 \<and> ses_final_cost s' = Some 10
      \<and> calculateSessionCost cl ''s3'' Mode2v2 d' = Inr 15"
  by (simp add: endSession_def endSession_body_def transaction_def Let_def
      calculateSessionCost_def findSessionById_def console_of_def
      ex_db_def ex_consoles_def ex_2v2_session_def ex_console_c5_def
      decimal_or_def paused_or_0_def mode_or_1v1_def time_of_def toFixed2_def
      to_double_small_ints)

subsection \<open>The recorded paused time\<close>

lemma paused_or_0_Some [simp]: "paused_or_0 (Some n) = n"
  by (simp add: paused_or_0_def)

lemma pause_not_after_mono:
  "pause_not_after t d sid \<Longrightarrow> t \<le> now \<Longrightarrow> pause_not_after now d sid"
  by (auto simp: pause_not_after_def split: option.splits)

lemma pauseSession_step:
  assumes "pause_not_after now d sid"
  shows "total_paused (snd (pauseSession sid' now d)) sid = total_paused d sid
       \<and> pause_not_after now (snd (pauseSession sid' now d)) sid"
  using assms
  by (auto simp: pauseSession_def total_paused_def pause_not_after_def Let_def
      split: option.splits)

lemma resumeSession_step:
  assumes "pause_not_after now d sid"
  shows "total_paused d sid \<le> total_paused (snd (resumeSession sid' now d)) sid
       \<and> pause_not_after now (snd (resumeSession sid' now d)) sid"
  using assms
  by (auto simp: resumeSession_def total_paused_def pause_not_after_def Let_def
      split: option.splits)

lemma endSession_step:
  assumes "pause_not_after now d sid"
  shows "total_paused d sid \<le> total_paused (snd (endSession cl sid' now d)) sid
       \<and> pause_not_after now (snd (endSession cl sid' now d)) sid"
  using assms
  by (auto simp: endSession_def endSession_body_def transaction_def total_paused_def
      pause_not_after_def Let_def
      split: option.splits)

lemma apply_session_op_step:
  assumes "pause_not_after now d sid"
  shows "total_paused d sid \<le> total_paused (apply_session_op cl op now d) sid
       \<and> pause_not_after now (apply_session_op cl op now d) sid"
  using assms pauseSession_step [of now d sid] resumeSession_step [of now d sid]
    endSession_step [of now d sid]
  by (cases op) auto

lemma run_session_ops_monotone:
  assumes "sorted (now0 # map snd ops)" and "pause_not_after now0 d sid"
  shows "total_paused d sid \<le> total_paused (run_session_ops cl ops d) sid"
  using assms
proof (induction ops arbitrary: now0 d)
  case Nil
  then show ?case by simp
next
  case (Cons a ops)
  obtain op now where a: "a = (op, now)" by (cases a)
  from Cons.prems a have le: "now0 \<le> now" and srt: "sorted (now # map snd ops)"
    by auto
  from Cons.prems(2) le have "pause_not_after now d sid"
    by (rule pause_not_after_mono)
  from apply_session_op_step [OF this, of cl op]
  have step: "total_paused d sid \<le> total_paused (apply_session_op cl op now d) sid"
    and inv: "pause_not_after now (apply_session_op cl op now d) sid"
    by auto
  from Cons.IH [OF srt inv] step a show ?case by simp
qed

text \<open>
  Claim C8, as amended. \<open>resumeSession\<close> on a paused session adds the elapsed pause
  \<open>now - pausedAt\<close> to the recorded paused time, \<open>endSession\<close> adds the open pause of a paused
  session and nothing otherwise, and \<open>pauseSession\<close> leaves it alone. Neither sum is clamped,
  so the recorded time is kept from decreasing by the clock alone: over every sequence of
  pause, resume and end calls on any sessions, made at clock readings that do not go back and
  of which the first is not before the start of the open pause of the session, the recorded
  time at the end is at least the recorded time at the start.
\<close>

theorem total_paused_never_decreases:
  "(\<forall>s tp. sessions d sid = Some s \<and> ses_status s = Paused \<and> ses_paused_at s = Some tp
      \<longrightarrow> total_paused (snd (resumeSession sid now d)) sid = total_paused d sid + (now - tp))
   \<and> (\<forall>s c. sessions d sid = Some s \<and> ses_status s \<noteq> Ended \<and> console_of d s = Some c
      \<longrightarrow> total_paused (snd (endSession cl sid now d)) sid
            = total_paused d sid
              + (if ses_status s = Paused
                 then (case ses_paused_at s of Some tp \<Rightarrow> now - tp | None \<Rightarrow> 0) else 0))
   \<and> (sorted (now0 # map snd ops) \<and> pause_not_after now0 d sid
      \<longrightarrow> total_paused d sid \<le> total_paused (run_session_ops cl ops d) sid)"
proof (intro conjI allI impI)
  fix s tp
  assume "sessions d sid = Some s \<and> ses_status s = Paused \<and> ses_paused_at s = Some tp"
  then show "total_paused (snd (resumeSession sid now d)) sid = total_paused d sid + (now - tp)"
    by (simp add: resumeSession_def total_paused_def Let_def)
next
  fix s c
  assume "sessions d sid = Some s \<and> ses_status s \<noteq> Ended \<and> console_of d s = Some c"
  then show "total_paused (snd (endSession cl sid now d)) sid
            = total_paused d sid
              + (if ses_status s = Paused
                 then (case ses_paused_at s of Some tp \<Rightarrow> now - tp | None \<Rightarrow> 0) else 0)"
    by (cases "ses_console_id s"; cases "ses_paused_at s")
       (auto simp: endSession_def endSession_body_def transaction_def total_paused_def Let_def
          console_of_def)
next
  assume "sorted (now0 # map snd ops) \<and> pause_not_after now0 d sid"
  then show "total_paused d sid \<le> total_paused (run_session_ops cl ops d) sid"
    using run_session_ops_monotone by blast
qed

text \<open>
  Session s1, paused since 3001000 with 900000 ms recorded: resumed at 3100000, paused at
  3200000 and ended at 3500000, it has 1299000 ms recorded.
\<close>

theorem total_paused_never_decreases_witness:
  "sorted (3001000 # map snd ex_ops) \<and> pause_not_after 3001000 ex_db ''s1''
   \<and> total_paused ex_db ''s1'' = 900000
   \<and> total_paused (snd (resumeSession ''s1'' 3100000 ex_db)) ''s1'' = 999000
   \<and> total_paused (snd (endSession Sqlite3 ''s1'' 3100000 ex_db)) ''s1'' = 999000
   \<and> 900000 \<le> total_paused (run_session_ops Sqlite3 ex_ops ex_db) ''s1''
   \<and> total_paused (run_session_ops Sqlite3 ex_ops ex_db) ''s1'' = 1299000"
proof -
  have s: "sessions ex_db ''s1'' = Some ex_paused_session"
    by (simp add: ex_db_def)
  have p: "ses_status ex_paused_session = Paused" "ses_paused_at ex_paused_session = Some 3001000"
    "ses_status ex_paused_session \<noteq> Ended"
    by (simp_all add: ex_paused_session_def)
  have c: "console_of ex_db ex_paused_session = Some ex_console_c1"
    by (simp add: console_of_def ex_db_def ex_paused_session_def ex_consoles_def)
  have 1: "sorted (3001000 # map snd ex_ops)"
    by (simp add: ex_ops_def)
  have 2: "pause_not_after 3001000 ex_db ''s1''"
    by (simp add: pause_not_after_def s p)
  have 3: "total_paused ex_db ''s1'' = 900000"
    by (simp add: total_paused_def s ex_paused_session_def)
  note inst = total_paused_never_decreases [of ex_db "''s1''" _ Sqlite3 3001000 ex_ops]
  have 4: "total_paused (snd (resumeSession ''s1'' 3100000 ex_db)) ''s1'' = 999000"
    using inst [of 3100000] s p 3 by simp
  have 5: "total_paused (snd (endSession Sqlite3 ''s1'' 3100000 ex_db)) ''s1'' = 999000"
    using inst [of 3100000] s p c 3 by simp
  have 6: "900000 \<le> total_paused (run_session_ops Sqlite3 ex_ops ex_db) ''s1''"
    using inst [of 0] 1 2 3 by simp
  have 7: "total_paused (run_session_ops Sqlite3 ex_ops ex_db) ''s1'' = 1299000"
    by (simp add: ex_ops_def resumeSession_def pauseSession_def endSession_def
        endSession_body_def transaction_def findSessionById_def console_of_def
        total_paused_def Let_def ex_db_def ex_paused_session_def ex_consoles_def
        decimal_or_def mode_or_1v1_def)
  from 1 2 3 4 5 6 7 show ?thesis by blast
qed

text \<open>
  Claim C8 as it is stated, for every sequence of calls, fails where the clock of a call reads
  less than the \<open>paused_at\<close> it meets (a clock set back, or a second server whose clock is
  behind): session s1, paused since 3001000 with 900000 ms recorded, is resumed at a clock
  reading of 3000000, and \<open>resumeSession\<close> adds -1000.
\<close>

theorem total_paused_never_decreases_counterexample:
  "total_paused ex_db ''s1'' = 900000
   \<and> total_paused (snd (resumeSession ''s1'' 3000000 ex_db)) ''s1'' = 899000"
  by (simp add: resumeSession_def total_paused_def Let_def ex_db_def ex_paused_session_def)

subsection \<open>processCheckout\<close>

lemma toFixed2_0 [simp]: "toFixed2 0 = 0"
  by (simp add: toFixed2_def)

lemma transaction_failure:
  "fst (transaction body d) = Inl e \<Longrightarrow> snd (transaction body d) = d"
  by (auto simp: transaction_def split: prod.splits sum.splits)

lemma process_items_tables:
  "sessions (snd (process_items items subtotal acc d)) = sessions d
   \<and> consoles (snd (process_items items subtotal acc d)) = consoles d
   \<and> receipts (snd (process_items items subtotal acc d)) = receipts d
   \<and> session_items (snd (process_items items subtotal acc d)) = session_items d
   \<and> receipt_items (snd (process_items items subtotal acc d)) = receipt_items d"
  by (induction items arbitrary: subtotal acc d) (auto simp: Let_def split: option.splits)



lemma processCheckout_failure:
  "fst (processCheckout cl items pm sessionId manual ulid d) = Inl e
     \<Longrightarrow> snd (processCheckout cl items pm sessionId manual ulid d) = d"
  unfolding processCheckout_def by (rule transaction_failure)

lemma processCheckout_success:
  assumes "processCheckout cl items pm sessionId manual ulid d = (Inr r, d')"
  shows "\<exists>cc subtotal lines d1 row.
           (case truthy_id sessionId of
              None \<Rightarrow> Inr no_console_charge
            | Some sid \<Rightarrow> session_charge cl sid manual d) = Inr cc
         \<and> process_items items (cc_subtotal cc) [] d = (Inr (subtotal, lines), d1)
         \<and> sessions d' = sessions d \<and> consoles d' = consoles d
         \<and> receipts d' = receipts d @ [row]
         \<and> rec_session_id row = truthy_id sessionId
         \<and> rec_calculated_console_price row =
             (if truthy_id sessionId \<noteq> None
              then Some (toFixed2 (cc_calculatedConsolePrice cc)) else None)
         \<and> rec_manual_console_price row =
             (if truthy_id sessionId \<noteq> None \<and> manual \<noteq> None
              then Some (toFixed2 (cc_finalConsolePrice cc)) else None)
         \<and> r_consoleUsage r = cc_consoleUsageData cc
         \<and> r_subtotal r = toFixed2 subtotal \<and> r_tax r = 0 \<and> r_total r = toFixed2 subtotal"
proof -
  let ?charge = "case truthy_id sessionId of
                   None \<Rightarrow> Inr no_console_charge
                 | Some sid \<Rightarrow> session_charge cl sid manual d"
  from assms obtain cc where cc: "?charge = Inr cc"
    by (cases ?charge)
       (auto simp: processCheckout_def processCheckout_body_def transaction_def)
  obtain res d1 where pi: "process_items items (cc_subtotal cc) [] d = (res, d1)"
    by (cases "process_items items (cc_subtotal cc) [] d")
  with assms cc obtain subtotal lines where res: "res = Inr (subtotal, lines)"
    by (cases res)
       (auto simp: processCheckout_def processCheckout_body_def transaction_def)
  have tabs: "sessions d1 = sessions d" "consoles d1 = consoles d" "receipts d1 = receipts d"
    using process_items_tables [of items "cc_subtotal cc" "[]" d] pi by simp_all
  show ?thesis
    using assms cc pi res tabs
    by (auto simp: processCheckout_def processCheckout_body_def transaction_def Let_def
        TAX_RATE_def split: option.splits if_splits)
qed

lemma session_charge_Inr:
  assumes "session_charge cl sid manual d = Inr cc"
  shows "\<exists>s fc c. sessions d sid = Some s \<and> ses_status s = Ended
           \<and> find (\<lambda>r. rec_session_id r = Some sid) (receipts d) = None
           \<and> ses_final_cost s = Some fc \<and> console_of d s = Some c
           \<and> cc_calculatedConsolePrice cc = fc
           \<and> cc_finalConsolePrice cc = (case manual of Some m \<Rightarrow> m | None \<Rightarrow> fc)
           \<and> 0 \<le> cc_finalConsolePrice cc
           \<and> cc_subtotal cc = cc_finalConsolePrice cc
           \<and> (\<exists>cu. cc_consoleUsageData cc = Some cu \<and> cu_calculatedCost cu = fc
                 \<and> cu_finalCost cu = cc_finalConsolePrice cc
                 \<and> cu_subtotal cu = cc_finalConsolePrice cc)"
  using assms
  by (auto simp: session_charge_def Let_def split: option.splits if_splits)

lemma session_charge_paid:
  assumes "sessions d sid = Some s" and "ses_status s = Ended"
    and "find (\<lambda>r. rec_session_id r = Some sid) (receipts d) = Some row"
  shows "session_charge cl sid manual d = Inl AlreadyPaid"
  using assms by (simp add: session_charge_def)

lemma one_receipt_per_session_append:
  assumes "one_receipt_per_session d" and "receipts d' = receipts d @ [row]"
    and "\<forall>sid. rec_session_id row = Some sid
           \<longrightarrow> find (\<lambda>r. rec_session_id r = Some sid) (receipts d) = None"
  shows "one_receipt_per_session d'"
proof (cases "rec_session_id row")
  case None
  with assms(1,2) show ?thesis
    by (simp add: one_receipt_per_session_def map_filter_def)
next
  case (Some sid)
  with assms(3) have "\<forall>r\<in>set (receipts d). rec_session_id r \<noteq> Some sid"
    by (simp add: find_None_iff)
  then have "sid \<notin> set (List.map_filter rec_session_id (receipts d))"
    by (auto simp: map_filter_def)
  with assms(1,2) Some show ?thesis
    by (simp add: one_receipt_per_session_def map_filter_def)
qed

lemma process_items_missing_product:
  assumes "\<exists>item\<in>set items. products d (ci_productId item) = None"
  shows "\<exists>e. fst (process_items items subtotal acc d) = Inl e"
  using assms
proof (induction items arbitrary: subtotal acc d)
  case Nil
  then show ?case by simp
next
  case (Cons item items)
  show ?case
  proof (cases "products d (ci_productId item)")
    case None
    then show ?thesis by simp
  next
    case (Some p)
    show ?thesis
    proof (cases "prod_stock p < ci_quantity item")
      case True
      with Some show ?thesis by simp
    next
      case False
      let ?d1 = "d\<lparr>products := (products d)(ci_productId item \<mapsto>
                   p\<lparr>prod_stock := prod_stock p - ci_quantity item\<rparr>)\<rparr>"
      from Cons.prems Some obtain it where
        it: "it \<in> set items" "products d (ci_productId it) = None"
        by auto
      with Some have "products ?d1 (ci_productId it) = None"
        by (cases "ci_productId it = ci_productId item") auto
      with it(1) have "\<exists>it\<in>set items. products ?d1 (ci_productId it) = None"
        by blast
      from Cons.IH [OF this] Some False show ?thesis
        by (simp add: Let_def)
    qed
  qed
qed

lemma process_items_insufficient_stock:
  assumes "\<forall>item\<in>set items. 0 \<le> ci_quantity item"
    and "\<exists>item\<in>set items. \<exists>p. products d (ci_productId item) = Some p
           \<and> prod_stock p < ci_quantity item"
  shows "\<exists>e. fst (process_items items subtotal acc d) = Inl e"
  using assms
proof (induction items arbitrary: subtotal acc d)
  case Nil
  then show ?case by simp
next
  case (Cons item items)
  show ?case
  proof (cases "products d (ci_productId item)")
    case None
    then show ?thesis by simp
  next
    case (Some p)
    show ?thesis
    proof (cases "prod_stock p < ci_quantity item")
      case True
      with Some show ?thesis by simp
    next
      case False
      let ?d1 = "d\<lparr>products := (products d)(ci_productId item \<mapsto>
                   p\<lparr>prod_stock := prod_stock p - ci_quantity item\<rparr>)\<rparr>"
      from Cons.prems(1) have q: "0 \<le> ci_quantity item"
        and rest: "\<forall>it\<in>set items. 0 \<le> ci_quantity it"
        by auto
      from Cons.prems(2) Some False obtain it p' where
        it: "it \<in> set items" "products d (ci_productId it) = Some p'"
          "prod_stock p' < ci_quantity it"
        by auto
      have "\<exists>p''. products ?d1 (ci_productId it) = Some p'' \<and> prod_stock p'' < ci_quantity it"
        using it(2,3) Some q by (cases "ci_productId it = ci_productId item") auto
      with it(1) have "\<exists>it\<in>set items. \<exists>p. products ?d1 (ci_productId it) = Some p
           \<and> prod_stock p < ci_quantity it"
        by blast
      from Cons.IH [OF rest this] Some False show ?thesis
        by (simp add: Let_def)
    qed
  qed
qed

lemma processCheckout_fails_on_cart:
  assumes "(\<exists>item\<in>set items. products d (ci_productId item) = None)
         \<or> ((\<forall>item\<in>set items. 0 \<le> ci_quantity item)
            \<and> (\<exists>item\<in>set items. \<exists>p. products d (ci_productId item) = Some p
                  \<and> prod_stock p < ci_quantity item))"
  shows "\<exists>e. processCheckout cl items pm sessionId manual ulid d = (Inl e, d)"
proof -
  let ?charge = "case truthy_id sessionId of
                   None \<Rightarrow> Inr no_console_charge
                 | Some sid \<Rightarrow> session_charge cl sid manual d"
  show ?thesis
  proof (cases ?charge)
    case (Inl e)
    then show ?thesis
      by (simp add: processCheckout_def processCheckout_body_def transaction_def)
  next
    case (Inr cc)
    from assms have "\<exists>e. fst (process_items items (cc_subtotal cc) [] d) = Inl e"
      using process_items_missing_product process_items_insufficient_stock by blast
    then obtain e d1 where "process_items items (cc_subtotal cc) [] d = (Inl e, d1)"
      by (metis prod.collapse)
    with Inr show ?thesis
      by (simp add: processCheckout_def processCheckout_body_def transaction_def)
  qed
qed

lemma ex_cart_body:
  "\<exists>d1 p. processCheckout_body Sqlite3 ex_cart ''cash'' None None ''01K'' ex_db
             = (Inl (CartNotEnoughStock ''Chips'' 1), d1)
         \<and> products d1 ''prod-1'' = Some p \<and> prod_stock p = 43"
  by (simp add: processCheckout_body_def truthy_id_def no_console_charge_def ex_cart_def
      ex_db_def ex_products_def Let_def)

lemma ex_s2_charge:
  assumes "case manual of Some m \<Rightarrow> 0 \<le> m | None \<Rightarrow> True"
  shows "\<exists>cc. session_charge cl ''s2'' manual ex_db = Inr cc"
  using assms
  by (cases manual)
     (simp_all add: session_charge_def ex_db_def ex_ended_session_def console_of_def
        ex_consoles_def Let_def)

lemma ex_s2_checkout:
  assumes "case manual of Some m \<Rightarrow> 0 \<le> m | None \<Rightarrow> True"
  shows "\<exists>r d1. processCheckout cl [] ''cash'' (Some ''s2'') manual ''01K'' ex_db = (Inr r, d1)"
proof -
  from ex_s2_charge [OF assms] obtain cc where
    "session_charge cl ''s2'' manual ex_db = Inr cc"
    by blast
  moreover have "receipts ex_db = []" by (simp add: ex_db_def)
  ultimately show ?thesis
    by (simp add: processCheckout_def processCheckout_body_def transaction_def truthy_id_def
        Let_def)
qed

text \<open>
  Claim C2. Whenever \<open>processCheckout\<close> fails, at whatever step (a missing product, a cart
  item that exceeds the stock, a session already paid, a negative console price), the store
  after the call is the store before it: no receipt is persisted and every stock count is
  what it was, also for the products whose stock the call had already decremented. And it
  does fail, with the store unchanged, when the cart names a product that does not exist, or
  when its quantities are not negative and one of them exceeds the stock of its product.
\<close>

theorem processCheckout_all_or_nothing:
  "(fst (processCheckout cl items pm sessionId manual ulid d) = Inl e
      \<longrightarrow> snd (processCheckout cl items pm sessionId manual ulid d) = d)
   \<and> ((\<exists>item\<in>set items. products d (ci_productId item) = None)
        \<or> ((\<forall>item\<in>set items. 0 \<le> ci_quantity item)
           \<and> (\<exists>item\<in>set items. \<exists>p. products d (ci_productId item) = Some p
                 \<and> prod_stock p < ci_quantity item))
      \<longrightarrow> (\<exists>e'. processCheckout cl items pm sessionId manual ulid d = (Inl e', d)))"
  using processCheckout_failure [of cl items pm sessionId manual ulid d e]
    processCheckout_fails_on_cart [of items d cl pm sessionId manual ulid]
  by blast

text \<open>
  The example cart fails on the Chips, after the loop has taken two Cola (stock 43 at the
  throw): the store after the call is the example store, with 45 Cola.
\<close>

theorem processCheckout_all_or_nothing_witness:
  "fst (processCheckout Sqlite3 ex_cart ''cash'' None None ''01K'' ex_db)
     = Inl (CartNotEnoughStock ''Chips'' 1)
   \<and> snd (processCheckout Sqlite3 ex_cart ''cash'' None None ''01K'' ex_db) = ex_db
   \<and> (\<exists>p. products (snd (processCheckout_body Sqlite3 ex_cart ''cash'' None None ''01K'' ex_db))
             ''prod-1'' = Some p \<and> prod_stock p = 43)
   \<and> (\<exists>p. products ex_db ''prod-1'' = Some p \<and> prod_stock p = 45)
   \<and> (\<exists>e'. processCheckout Sqlite3 ex_cart ''cash'' None None ''01K'' ex_db = (Inl e', ex_db))"
proof -
  from ex_cart_body obtain d1 p where
    b: "processCheckout_body Sqlite3 ex_cart ''cash'' None None ''01K'' ex_db
          = (Inl (CartNotEnoughStock ''Chips'' 1), d1)"
    and p: "products d1 ''prod-1'' = Some p" "prod_stock p = 43"
    by blast
  from b have f: "fst (processCheckout Sqlite3 ex_cart ''cash'' None None ''01K'' ex_db)
     = Inl (CartNotEnoughStock ''Chips'' 1)"
    by (simp add: processCheckout_def transaction_def)
  have q: "\<forall>item\<in>set ex_cart. 0 \<le> ci_quantity item"
    by (simp add: ex_cart_def)
  have x: "\<exists>item\<in>set ex_cart. \<exists>p. products ex_db (ci_productId item) = Some p
         \<and> prod_stock p < ci_quantity item"
    by (simp add: ex_cart_def ex_db_def ex_products_def)
  have "\<exists>p. products ex_db ''prod-1'' = Some p \<and> prod_stock p = 45"
    by (simp add: ex_db_def ex_products_def)
  with processCheckout_all_or_nothing
         [of Sqlite3 ex_cart "''cash''" None None "''01K''" ex_db
            "CartNotEnoughStock ''Chips'' 1"] f b p q x
  show ?thesis
    by simp
qed

text \<open>
  Claim C3. After a checkout of a session has succeeded, every further checkout with that
  session id fails with the already-paid error and leaves the store, stock counts included,
  as it is; and no checkout makes two receipts reference the same session. A session id is
  \<open>ses_\<close> followed by a ulid, hence not the empty string, which \<open>processCheckout\<close> takes for no
  session at all.
\<close>

theorem processCheckout_once_per_session:
  "(sid \<noteq> [] \<and> processCheckout cl items pm (Some sid) manual ulid d = (Inr r, d1)
      \<longrightarrow> (\<forall>cl2 items2 pm2 manual2 ulid2.
             processCheckout cl2 items2 pm2 (Some sid) manual2 ulid2 d1 = (Inl AlreadyPaid, d1)))
   \<and> (one_receipt_per_session d
      \<longrightarrow> one_receipt_per_session (snd (processCheckout cl items pm sessionId manual ulid d)))"
proof (intro conjI impI allI)
  fix cl2 items2 pm2 manual2 ulid2
  assume a: "sid \<noteq> [] \<and> processCheckout cl items pm (Some sid) manual ulid d = (Inr r, d1)"
  then have t: "truthy_id (Some sid) = Some sid"
    by (simp add: truthy_id_def)
  from a processCheckout_success [of cl items pm "Some sid" manual ulid d r d1] t
  obtain cc row where cc: "session_charge cl sid manual d = Inr cc"
    and d1: "sessions d1 = sessions d" "receipts d1 = receipts d @ [row]"
      "rec_session_id row = Some sid"
    by auto
  from session_charge_Inr [OF cc] obtain s where
    s: "sessions d sid = Some s" "ses_status s = Ended"
    by auto
  have "find (\<lambda>r. rec_session_id r = Some sid) (receipts d1) \<noteq> None"
    using d1(2,3) by (auto simp: find_None_iff)
  then obtain row' where "find (\<lambda>r. rec_session_id r = Some sid) (receipts d1) = Some row'"
    by auto
  with s d1(1) have "session_charge cl2 sid manual2 d1 = Inl AlreadyPaid"
    by (simp add: session_charge_paid)
  with t show "processCheckout cl2 items2 pm2 (Some sid) manual2 ulid2 d1 = (Inl AlreadyPaid, d1)"
    by (simp add: processCheckout_def processCheckout_body_def transaction_def)
next
  assume inv: "one_receipt_per_session d"
  let ?p = "processCheckout cl items pm sessionId manual ulid d"
  show "one_receipt_per_session (snd ?p)"
  proof (cases "fst ?p")
    case (Inl e)
    then show ?thesis using inv processCheckout_failure by metis
  next
    case (Inr r)
    then have ok: "?p = (Inr r, snd ?p)"
      by (metis prod.collapse)
    from processCheckout_success [OF ok] obtain cc row where
      cc: "(case truthy_id sessionId of
              None \<Rightarrow> Inr no_console_charge
            | Some sid \<Rightarrow> session_charge cl sid manual d) = Inr cc"
      and row: "receipts (snd ?p) = receipts d @ [row]" "rec_session_id row = truthy_id sessionId"
      by auto
    have "\<forall>sid. rec_session_id row = Some sid
           \<longrightarrow> find (\<lambda>r. rec_session_id r = Some sid) (receipts d) = None"
    proof (intro allI impI)
      fix sid
      assume "rec_session_id row = Some sid"
      with row(2) have "truthy_id sessionId = Some sid"
        by simp
      with cc have "session_charge cl sid manual d = Inr cc"
        by simp
      from session_charge_Inr [OF this]
      show "find (\<lambda>r. rec_session_id r = Some sid) (receipts d) = None"
        by blast
    qed
    with inv row(1) show ?thesis
      by (rule one_receipt_per_session_append)
  qed
qed

text \<open>Session s2 is checked out, and a second checkout of it with the example cart fails.\<close>

theorem processCheckout_once_per_session_witness:
  "\<exists>r d1. processCheckout Sqlite3 [] ''cash'' (Some ''s2'') None ''01K'' ex_db = (Inr r, d1)
     \<and> processCheckout Sqlite3 ex_cart ''card'' (Some ''s2'') (Some 5) ''01M'' d1
         = (Inl AlreadyPaid, d1)
     \<and> one_receipt_per_session ex_db \<and> one_receipt_per_session d1"
proof -
  from ex_s2_checkout [of None Sqlite3] obtain r d1 where
    ok: "processCheckout Sqlite3 [] ''cash'' (Some ''s2'') None ''01K'' ex_db = (Inr r, d1)"
    by auto
  have inv: "one_receipt_per_session ex_db"
    by (simp add: one_receipt_per_session_def ex_db_def map_filter_def)
  from processCheckout_once_per_session
         [of "''s2''" Sqlite3 "[]" "''cash''" None "''01K''" ex_db r d1 "Some ''s2''"] ok inv
  have "processCheckout Sqlite3 ex_cart ''card'' (Some ''s2'') (Some 5) ''01M'' d1
         = (Inl AlreadyPaid, d1)"
    and "one_receipt_per_session d1"
    by simp_all
  with ok inv show ?thesis by blast
qed



text \<open>
  The check for an existing receipt comes before the lookup of the console: a session that
  is already paid is refused as such, whether its console exists or not.
\<close>

lemma processCheckout_paid_session:
  assumes "sid \<noteq> []" and "sessions d sid = Some s" and "ses_status s = Ended"
    and "find (\<lambda>r. rec_session_id r = Some sid) (receipts d) = Some row"
  shows "processCheckout cl items pm (Some sid) manual ulid d = (Inl AlreadyPaid, d)"
  using assms
  by (simp add: processCheckout_def processCheckout_body_def transaction_def truthy_id_def
      session_charge_paid)

text \<open>
  Claim C10. The checkout of a session that exists, is ended, has a stored final cost and is
  not yet paid, but whose console row no longer exists, fails with the console-not-found error
  and leaves the store (stock counts and receipts) unchanged.
\<close>

theorem processCheckout_console_not_found:
  assumes "sid \<noteq> []" and "sessions d sid = Some s" and "ses_status s = Ended"
    and "ses_final_cost s = Some fc" and "console_of d s = None"
    and "find (\<lambda>r. rec_session_id r = Some sid) (receipts d) = None"
  shows "processCheckout cl items pm (Some sid) manual ulid d = (Inl ConsoleNotFoundForSession, d)"
  using assms
  by (simp add: processCheckout_def processCheckout_body_def transaction_def truthy_id_def
      session_charge_def)

text \<open>Session s4 of the example store ended on a console that was deleted since.\<close>

theorem processCheckout_console_not_found_witness:
  "''s4'' \<noteq> [] \<and> sessions ex_db ''s4'' = Some ex_orphan_session
   \<and> ses_status ex_orphan_session = Ended \<and> ses_final_cost ex_orphan_session = Some 8
   \<and> console_of ex_db ex_orphan_session = None
   \<and> find (\<lambda>r. rec_session_id r = Some ''s4'') (receipts ex_db) = None
   \<and> processCheckout Postgresql ex_cart ''cash'' (Some ''s4'') None ''01K'' ex_db
       = (Inl ConsoleNotFoundForSession, ex_db)"
proof -
  have 1: "''s4'' \<noteq> []" by simp
  have 2: "sessions ex_db ''s4'' = Some ex_orphan_session"
    by (simp add: ex_db_def)
  have 3: "ses_status ex_orphan_session = Ended"
    and 4: "ses_final_cost ex_orphan_session = Some 8"
    by (simp_all add: ex_orphan_session_def)
  have 5: "console_of ex_db ex_orphan_session = None"
    by (simp add: console_of_def ex_orphan_session_def)
  have 6: "find (\<lambda>r. rec_session_id r = Some ''s4'') (receipts ex_db) = None"
    by (simp add: ex_db_def)
  from processCheckout_console_not_found [OF 1 2 3 4 5 6] 1 2 3 4 5 6
  show ?thesis by simp
qed

end
